theory Spec2Isabelle
  imports Complex_Main "HOL-Library.AList"
begin

section \<open>Strings and the built-in string operations\<close>

text \<open>
  A string of the program is a sequence of UTF-16 code units. The model is over the code
  units U+0000 to U+00FF, which are the values of \<^typ>\<open>char\<close>: \<open>code c\<close> is the code
  unit. The euro sign (U+20AC) of the price pattern lies outside this range.
\<close>

definition code :: "char \<Rightarrow> nat" where
  "code c = of_char c"

text \<open>\<^verbatim>\<open>\s\<close> of a pattern and the characters \<^verbatim>\<open>trim()\<close> removes: tab, line feed,
  vertical tab, form feed, carriage return, space, no-break space.\<close>

definition isWhiteSpace :: "char \<Rightarrow> bool" where
  "isWhiteSpace c =
     (code c = 9 \<or> code c = 10 \<or> code c = 11 \<or> code c = 12 \<or> code c = 13 \<or>
      code c = 32 \<or> code c = 160)"

text \<open>Line terminators: what \<^verbatim>\<open>.\<close> does not match and where \<^verbatim>\<open>^\<close> and \<^verbatim>\<open>$\<close>
  match under the \<^verbatim>\<open>m\<close> flag.\<close>

definition isLineTerminator :: "char \<Rightarrow> bool" where
  "isLineTerminator c = (code c = 10 \<or> code c = 13)"

definition isDigit :: "char \<Rightarrow> bool" where
  "isDigit c = (48 \<le> code c \<and> code c \<le> 57)"

definition isLower :: "char \<Rightarrow> bool" where
  "isLower c = (97 \<le> code c \<and> code c \<le> 122)"

definition isUpper :: "char \<Rightarrow> bool" where
  "isUpper c = (65 \<le> code c \<and> code c \<le> 90)"

definition trimStart :: "string \<Rightarrow> string" where
  "trimStart s = dropWhile isWhiteSpace s"

definition trimEnd :: "string \<Rightarrow> string" where
  "trimEnd s = rev (dropWhile isWhiteSpace (rev s))"

definition trim :: "string \<Rightarrow> string" where
  "trim s = trimEnd (trimStart s)"

text \<open>\<^verbatim>\<open>toLowerCase()\<close> on one code unit: A-Z, and the upper-case letters U+00C0 to U+00DE
  without the multiplication sign U+00D7, move up by 32. In these ranges the bit of value
  32 is clear, so adding 32 sets it.\<close>

definition lowerChar :: "char \<Rightarrow> char" where
  "lowerChar c =
     (if isUpper c \<or> (192 \<le> code c \<and> code c \<le> 222 \<and> code c \<noteq> 215)
      then (case c of Char b0 b1 b2 b3 b4 b5 b6 b7 \<Rightarrow> Char b0 b1 b2 b3 b4 True b6 b7)
      else c)"

definition toLowerCase :: "string \<Rightarrow> string" where
  "toLowerCase s = map lowerChar s"

text \<open>\<^verbatim>\<open>s.includes(p)\<close>: \<open>p\<close> occurs in \<open>s\<close> as a contiguous run.\<close>

fun isPrefix :: "string \<Rightarrow> string \<Rightarrow> bool" where
  "isPrefix [] s = True"
| "isPrefix (p # ps) [] = False"
| "isPrefix (p # ps) (c # cs) = (p = c \<and> isPrefix ps cs)"

fun includes_str :: "string \<Rightarrow> string \<Rightarrow> bool" where
  "includes_str [] p = (p = [])"
| "includes_str (c # cs) p = (isPrefix p (c # cs) \<or> includes_str cs p)"

text \<open>\<^verbatim>\<open>s.split('\n')\<close>: the segments between line feeds; always at least one segment.\<close>

fun splitLines :: "string \<Rightarrow> string list" where
  "splitLines [] = [[]]"
| "splitLines (c # cs) =
     (if code c = 10 then [] # splitLines cs
      else (case splitLines cs of
              [] \<Rightarrow> [[c]]
            | l # ls \<Rightarrow> (c # l) # ls))"

text \<open>The mathematical value of a run of decimal digits.\<close>

definition digitsValue :: "string \<Rightarrow> nat" where
  "digitsValue ds = foldl (\<lambda>acc c. acc * 10 + (code c - 48)) 0 ds"

section \<open>Numbers: \<^verbatim>\<open>parseFloat\<close> and \<^verbatim>\<open>parseInt\<close>\<close>

text \<open>
  A Number of the program is \<open>NaN\<close>, an infinity or a finite double. \<open>Num q\<close> stands for the
  double nearest to the rational \<open>q\<close>; the two zeros of the program are both \<open>Num 0\<close>.
  A literal read by \<^verbatim>\<open>parseFloat\<close> keeps its rational as the name of that double
  (\<open>nearestDouble\<close>), an integer read by \<^verbatim>\<open>parseInt\<close> is rounded to the double itself
  (\<open>roundToDouble\<close>). The item index of \<open>parseFieldName\<close> below is the one number that is
  kept as a mathematical integer: it is the program's index as long as the number of the
  label is below \<open>2 ^ 53\<close>.
\<close>

datatype number = NaN | Num rat | PosInfinity | NegInfinity

text \<open>
  The Number for a rational that is not negative: an infinity from \<open>2 ^ 1024 - 2 ^ 970\<close>
  on, half a step above the largest double; zero up to \<open>2 ^ - 1075\<close>, half of the smallest
  double.
\<close>

definition nearestDouble :: "rat \<Rightarrow> number" where
  "nearestDouble q =
     (if 2 ^ 1024 - 2 ^ 970 \<le> q then PosInfinity
      else if q \<le> 1 / 2 ^ 1075 then Num 0
      else Num q)"

text \<open>
  The Number for a natural number: the number itself below \<open>2 ^ 53\<close>. From there on the
  doubles are the multiples of \<open>u\<close>, the power of two that leaves 53 binary digits; the
  result is the nearest multiple, the even one of two that are equally near, and an infinity
  when that multiple reaches \<open>2 ^ 1024\<close>.
\<close>

fun bitLength :: "nat \<Rightarrow> nat" where
  "bitLength n = (if n = 0 then 0 else Suc (bitLength (n div 2)))"

declare bitLength.simps [simp del]

definition roundToDouble :: "nat \<Rightarrow> number" where
  "roundToDouble n =
     (if n < 2 ^ 53 then Num (of_nat n)
      else
        let u = 2 ^ (bitLength n - 53); q = n div u; r = n mod u;
            m = (if u < 2 * r \<or> (2 * r = u \<and> odd q) then (q + 1) * u else q * u)
        in if 2 ^ 1024 \<le> m then PosInfinity else Num (of_nat m))"

definition isNaN :: "number \<Rightarrow> bool" where
  "isNaN n = (n = NaN)"

fun negate :: "number \<Rightarrow> number" where
  "negate NaN = NaN"
| "negate (Num q) = Num (- q)"
| "negate PosInfinity = NegInfinity"
| "negate NegInfinity = PosInfinity"

text \<open>The exponent part \<^verbatim>\<open>[eE][+-]?[0-9]+\<close> at the head of \<open>s\<close>, if there is one.\<close>

definition exponentPart :: "string \<Rightarrow> int" where
  "exponentPart s =
     (case s of
        [] \<Rightarrow> 0
      | e # r \<Rightarrow>
          if e = CHR ''e'' \<or> e = CHR ''E'' then
            (case r of
               [] \<Rightarrow> 0
             | sg # r' \<Rightarrow>
                 if sg = CHR ''-'' then
                   (if takeWhile isDigit r' = [] then 0
                    else - int (digitsValue (takeWhile isDigit r')))
                 else if sg = CHR ''+'' then int (digitsValue (takeWhile isDigit r'))
                 else int (digitsValue (takeWhile isDigit r)))
          else 0)"

definition scale10 :: "rat \<Rightarrow> int \<Rightarrow> rat" where
  "scale10 q e = (if 0 \<le> e then q * 10 ^ nat e else q / 10 ^ nat (- e))"

text \<open>The longest prefix that is an unsigned decimal literal: \<^verbatim>\<open>Infinity\<close>,
  digits with an optional fraction and exponent, or a point followed by digits.\<close>

definition parseUnsigned :: "string \<Rightarrow> number" where
  "parseUnsigned s =
     (if isPrefix ''Infinity'' s then PosInfinity
      else
        let ip = takeWhile isDigit s; r1 = dropWhile isDigit s in
        (case r1 of
           [] \<Rightarrow> if ip = [] then NaN else nearestDouble (of_nat (digitsValue ip))
         | d # r2 \<Rightarrow>
             if d = CHR ''.'' then
               (let fp = takeWhile isDigit r2; r3 = dropWhile isDigit r2 in
                if ip = [] \<and> fp = [] then NaN
                else nearestDouble
                       (scale10 (of_nat (digitsValue ip)
                                 + of_nat (digitsValue fp) / 10 ^ length fp)
                                (exponentPart r3)))
             else if ip = [] then NaN
             else nearestDouble (scale10 (of_nat (digitsValue ip)) (exponentPart r1))))"

definition parseFloat :: "string \<Rightarrow> number" where
  "parseFloat s =
     (case trimStart s of
        [] \<Rightarrow> NaN
      | c # r \<Rightarrow>
          if c = CHR ''-'' then negate (parseUnsigned r)
          else if c = CHR ''+'' then parseUnsigned r
          else parseUnsigned (c # r))"

text \<open>
  \<^verbatim>\<open>parseInt(s, 10)\<close>: leading white space, an optional sign, then the longest run of
  digits, whose value is rounded to a double; \<open>NaN\<close> without a digit. (The language lets an
  implementation replace the digits after the twentieth by zeros before it rounds; the
  model rounds the exact value.)
\<close>

definition parseIntDigits :: "string \<Rightarrow> number" where
  "parseIntDigits s =
     (if takeWhile isDigit s = [] then NaN
      else roundToDouble (digitsValue (takeWhile isDigit s)))"

definition parseInt :: "string \<Rightarrow> number" where
  "parseInt s =
     (case trimStart s of
        [] \<Rightarrow> NaN
      | c # r \<Rightarrow>
          if c = CHR ''-'' then negate (parseIntDigits r)
          else if c = CHR ''+'' then parseIntDigits r
          else parseIntDigits (c # r))"

section \<open>The field tables\<close>

text \<open>A \<^verbatim>\<open>Map\<close> of the program is an association list in insertion order with one entry
  per key: \<open>mapSet\<close> replaces the value of a key in place or appends a new entry.\<close>

definition mapGet :: "('k \<times> 'v) list \<Rightarrow> 'k \<Rightarrow> 'v option" where
  "mapGet m k = map_of m k"

definition mapHas :: "('k \<times> 'v) list \<Rightarrow> 'k \<Rightarrow> bool" where
  "mapHas m k = (map_of m k \<noteq> None)"

definition mapSet :: "('k \<times> 'v) list \<Rightarrow> 'k \<Rightarrow> 'v \<Rightarrow> ('k \<times> 'v) list" where
  "mapSet m k v = AList.update k v m"

text \<open>\<^verbatim>\<open>new Map(entries)\<close>: the entries are set one after the other.\<close>

definition newMap :: "('k \<times> 'v) list \<Rightarrow> ('k \<times> 'v) list" where
  "newMap entries = foldl (\<lambda>m (k, v). mapSet m k v) [] entries"

text \<open>\<^verbatim>\<open>new Set(xs)\<close>: the distinct elements in the order they first occur.\<close>

definition newSet :: "'a list \<Rightarrow> 'a list" where
  "newSet xs = foldl (\<lambda>acc x. if x \<in> set acc then acc else acc @ [x]) [] xs"

definition FIELD_MAPPINGS :: "(string \<times> string) list" where
  "FIELD_MAPPINGS =
     [(''site'', ''site''),
      (''product'', ''product''),
      (''price'', ''price''),
      (''qty'', ''quantity''),
      (''quantity'', ''quantity''),
      (''sku'', ''sku''),
      (''mode'', ''mode''),
      (''fulfillment type'', ''fulfillment_type''),
      (''fulfillment'', ''fulfillment_type''),
      (''profile'', ''profile''),
      (''order id'', ''order_id''),
      (''order number'', ''order_id''),
      (''order #'', ''order_id''),
      (''order email'', ''order_email''),
      (''email'', ''order_email''),
      (''order link'', ''order_link''),
      (''link'', ''order_link''),
      (''account'', ''account''),
      (''buy now atc?'', ''mode''),
      (''buy now'', ''mode'')]"

definition PER_ITEM_FIELDS :: "string list" where
  "PER_ITEM_FIELDS = [''product'', ''price'', ''qty'', ''quantity'', ''sku'']"

definition SHARED_FIELDS :: "string list" where
  "SHARED_FIELDS =
     [''site'', ''mode'', ''fulfillment type'', ''fulfillment'', ''profile'',
      ''order id'', ''order number'', ''order #'', ''order email'', ''email'',
      ''order link'', ''link'', ''account'']"

text \<open>
  \<^verbatim>\<open>FIELD_MAPPINGS[b] !== undefined\<close>. The table is a plain object, so besides its own
  keys the lookup finds the properties it inherits; of those only \<^verbatim>\<open>constructor\<close> and
  \<^verbatim>\<open>__proto__\<close> are spelled in lower case, as every name looked up here is.
\<close>

definition isMapped :: "string \<Rightarrow> bool" where
  "isMapped b = (map_of FIELD_MAPPINGS b \<noteq> None \<or> b = ''constructor'' \<or> b = ''__proto__'')"

section \<open>\<^verbatim>\<open>isSuccessfulCheckout\<close>\<close>

record EmbedField =
  name :: string
  "value" :: string

record EmbedAuthor =
  author_name :: "string option"

record Embed =
  title :: "string option"
  description :: "string option"
  embed_fields :: "EmbedField list option"
  author :: "EmbedAuthor option"

text \<open>\<^verbatim>\<open>x || ''\<close> on an optional string.\<close>

definition orEmpty :: "string option \<Rightarrow> string" where
  "orEmpty x = (case x of None \<Rightarrow> [] | Some v \<Rightarrow> v)"

definition textToCheck :: "Embed option \<Rightarrow> string \<Rightarrow> string" where
  "textToCheck emb rawText =
     toLowerCase
       (orEmpty (Option.bind emb title) @ '' '' @
        orEmpty (Option.bind emb description) @ '' '' @
        orEmpty (Option.bind (Option.bind emb author) author_name) @ '' '' @
        rawText)"

definition isSuccessfulCheckout :: "Embed option \<Rightarrow> string \<Rightarrow> bool" where
  "isSuccessfulCheckout emb rawText =
     (if emb = None \<and> rawText = [] then False
      else includes_str (textToCheck emb rawText) ''successful checkout'' \<or>
           includes_str (textToCheck emb rawText) ''checkout success'' \<or>
           includes_str (textToCheck emb rawText) ''successfully checked out'')"

section \<open>\<^verbatim>\<open>parseFieldName\<close>\<close>

text \<open>
  The pattern \<^verbatim>\<open>/^([a-z\s]+?)\s*\((\d+)\)$/\<close> on the whole string. The run \<open>p\<close> of
  letters and white space ends at the first other character, which has to be the opening
  parenthesis; digits and the closing parenthesis end the string. Group 1 is lazy: it is
  the shortest non-empty prefix of \<open>p\<close> after which \<open>p\<close> holds white space only. The
  result is groups 1 and 2.
\<close>

definition numberedMatch :: "string \<Rightarrow> (string \<times> string) option" where
  "numberedMatch s =
     (let p = takeWhile (\<lambda>c. isLower c \<or> isWhiteSpace c) s;
          r = dropWhile (\<lambda>c. isLower c \<or> isWhiteSpace c) s
      in case p of
           [] \<Rightarrow> None
         | c # p' \<Rightarrow>
             (case r of
                [] \<Rightarrow> None
              | b # r' \<Rightarrow>
                  if b = CHR ''('' \<and> takeWhile isDigit r' \<noteq> [] \<and> dropWhile isDigit r' = '')''
                  then Some (c # trimEnd p', takeWhile isDigit r')
                  else None))"

definition parseFieldName :: "string \<Rightarrow> (string \<times> int) option" where
  "parseFieldName fieldName =
     (let lower = trim (toLowerCase fieldName);
          direct = (if isMapped lower then Some (lower, 0) else None)
      in case numberedMatch lower of
           Some (g1, g2) \<Rightarrow>
             if isMapped (trim g1) then Some (trim g1, int (digitsValue g2) - 1)
             else direct
         | None \<Rightarrow> direct)"

section \<open>\<^verbatim>\<open>extractFieldsFromText\<close>\<close>

text \<open>The two accumulators of an extraction pass: the shared fields, and the fields of
  each item index.\<close>

type_synonym fieldMap = "(string \<times> string) list"
type_synonym itemMaps = "(int \<times> fieldMap) list"

text \<open>\<^verbatim>\<open>if (!items.has(index)) items.set(index, new Map())\<close>\<close>

definition ensureItem :: "itemMaps \<Rightarrow> int \<Rightarrow> itemMaps" where
  "ensureItem items index = (if \<not> mapHas items index then mapSet items index [] else items)"

text \<open>\<^verbatim>\<open>items.get(index)!\<close>, after \<open>ensureItem\<close>.\<close>

definition itemAt :: "itemMaps \<Rightarrow> int \<Rightarrow> fieldMap" where
  "itemAt items index = (case mapGet items index of None \<Rightarrow> [] | Some m \<Rightarrow> m)"

text \<open>\<^verbatim>\<open>items.get(index)!.set(key, v)\<close>: the inner map is changed in place, so the
  entry of \<open>index\<close> keeps its position.\<close>

definition setItemField :: "itemMaps \<Rightarrow> int \<Rightarrow> string \<Rightarrow> string \<Rightarrow> itemMaps" where
  "setItemField items index key v = mapSet items index (mapSet (itemAt items index) key v)"

text \<open>
  The body of the line loop for a field-name line whose next line is its value. A base name
  that the table only inherits has no string to map to and is in neither set.
\<close>

definition recordLinePair :: "fieldMap \<times> itemMaps \<Rightarrow> string \<times> int \<Rightarrow> string \<Rightarrow> fieldMap \<times> itemMaps" where
  "recordLinePair st parsed nextLine =
     (case st of (shared, items) \<Rightarrow>
      case parsed of (baseName, index) \<Rightarrow>
      case map_of FIELD_MAPPINGS baseName of
        None \<Rightarrow> (shared, items)
      | Some mappedName \<Rightarrow>
          if baseName \<in> set PER_ITEM_FIELDS then
            (shared, setItemField (ensureItem items index) index mappedName nextLine)
          else if baseName \<in> set SHARED_FIELDS then
            (if \<not> mapHas shared mappedName then (mapSet shared mappedName nextLine, items)
             else (shared, items))
          else (shared, items))"

text \<open>The loop over the lines: a field-name line followed by a line that is not a field
  name takes that line as its value and skips it.\<close>

fun linePairs :: "string list \<Rightarrow> fieldMap \<times> itemMaps \<Rightarrow> fieldMap \<times> itemMaps" where
  "linePairs (line # nextLine # rest) st =
     (case parseFieldName line of
        None \<Rightarrow> linePairs (nextLine # rest) st
      | Some parsed \<Rightarrow>
          if parseFieldName nextLine = None
          then linePairs rest (recordLinePair st parsed nextLine)
          else linePairs (nextLine # rest) st)"
| "linePairs ls st = st"

text \<open>
  The pattern \<^verbatim>\<open>/^([A-Za-z][A-Za-z0-9\s#?()]+?):\s*(.+)$/gm\<close>.

  \<open>colonValue\<close> is \<^verbatim>\<open>\s*(.+)$\<close> after the colon; it gives group 2 and the text after
  the match. When a character other than white space follows the white space, group 2 runs
  from it to the end of its line. When white space runs to the end of the text, \<^verbatim>\<open>\s*\<close>
  gives back characters until \<^verbatim>\<open>.+\<close> can take one: the last one that is not a line
  terminator.
\<close>

definition colonValue :: "string \<Rightarrow> (string \<times> string) option" where
  "colonValue t =
     (let u = dropWhile isWhiteSpace t in
      if u \<noteq> [] then
        Some (takeWhile (\<lambda>c. \<not> isLineTerminator c) u, dropWhile (\<lambda>c. \<not> isLineTerminator c) u)
      else
        let w = rev (dropWhile isLineTerminator (rev t)) in
        if w = [] then None else Some ([last w], drop (length w) t))"

definition colonClass :: "char \<Rightarrow> bool" where
  "colonClass c =
     (isUpper c \<or> isLower c \<or> isDigit c \<or> isWhiteSpace c \<or>
      c = CHR ''#'' \<or> c = CHR ''?'' \<or> c = CHR ''('' \<or> c = CHR '')'')"

text \<open>
  A match that begins at the head of \<open>s\<close>, a line start: groups 1 and 2 and the text after
  the match. The colon is not in the class of the label, so the label ends at the first
  character outside the class, which has to be the colon.
\<close>

definition colonMatchAt :: "string \<Rightarrow> (string \<times> string \<times> string) option" where
  "colonMatchAt s =
     (case s of
        [] \<Rightarrow> None
      | c # r \<Rightarrow>
          if (isUpper c \<or> isLower c) \<and> takeWhile colonClass r \<noteq> [] then
            (case dropWhile colonClass r of
               [] \<Rightarrow> None
             | d # t \<Rightarrow>
                 if d = CHR '':'' then
                   (case colonValue t of
                      None \<Rightarrow> None
                    | Some (g2, rest) \<Rightarrow> Some (c # takeWhile colonClass r, g2, rest))
                 else None)
          else None)"

text \<open>
  The \<^verbatim>\<open>exec\<close> loop: all matches from left to right, each search starting where the last
  match ended. \<open>atStart\<close> says that the head of the text is at a line start.
\<close>

function colonMatches :: "bool \<Rightarrow> string \<Rightarrow> (string \<times> string) list" where
  "colonMatches atStart [] = []"
| "colonMatches atStart (c # cs) =
     (if atStart then
        (case colonMatchAt (c # cs) of
           Some (g1, g2, rest) \<Rightarrow>
             if length rest \<le> length cs then (g1, g2) # colonMatches False rest
             else colonMatches (isLineTerminator c) cs
         | None \<Rightarrow> colonMatches (isLineTerminator c) cs)
      else colonMatches (isLineTerminator c) cs)"
  by pat_completeness auto
termination
  by (relation "measure (\<lambda>(b, s). length s)") auto

text \<open>The body of the \<^verbatim>\<open>exec\<close> loop for one match.\<close>

definition recordColon :: "fieldMap \<times> itemMaps \<Rightarrow> string \<times> string \<Rightarrow> fieldMap \<times> itemMaps" where
  "recordColon st m =
     (case st of (shared, items) \<Rightarrow>
      case m of (g1, g2) \<Rightarrow>
      case parseFieldName (trim g1) of
        None \<Rightarrow> (shared, items)
      | Some (baseName, index) \<Rightarrow>
          if trim g2 = [] then (shared, items)
          else
            (case map_of FIELD_MAPPINGS baseName of
               None \<Rightarrow> (shared, items)
             | Some mappedName \<Rightarrow>
                 if baseName \<in> set PER_ITEM_FIELDS then
                   (if \<not> mapHas (itemAt (ensureItem items index) index) mappedName
                    then (shared, setItemField (ensureItem items index) index mappedName (trim g2))
                    else (shared, ensureItem items index))
                 else if baseName \<in> set SHARED_FIELDS \<and> \<not> mapHas shared mappedName then
                   (mapSet shared mappedName (trim g2), items)
                 else (shared, items)))"

definition textLines :: "string \<Rightarrow> string list" where
  "textLines text = filter (\<lambda>l. length l > 0) (map trim (splitLines text))"

definition extractFieldsFromText :: "string \<Rightarrow> fieldMap \<times> itemMaps" where
  "extractFieldsFromText text =
     foldl recordColon (linePairs (textLines text) ([], [])) (colonMatches True text)"

section \<open>Cleansing of values\<close>

text \<open>
  \<^verbatim>\<open>value.replace(/^\|{2}(.+?)\|{2}$/s, '$1').trim()\<close>: the pattern is anchored at both
  ends and its dot matches every character, so it matches exactly the strings of at least
  five characters that begin and end with two bars, and group 1 is what lies between.
\<close>

definition stripSpoilerTags :: "string \<Rightarrow> string" where
  "stripSpoilerTags v =
     trim (if 5 \<le> length v \<and> take 2 v = ''||'' \<and> drop (length v - 2) v = ''||''
           then take (length v - 4) (drop 2 v) else v)"

text \<open>
  \<^verbatim>\<open>s.replace(/pattern/g, '')\<close> for a pattern that does not match the empty string:
  \<open>m\<close> gives the text after a match that begins at the head. The scan goes from left to
  right, cuts a match out and goes on behind it.
\<close>

function removeMatches :: "(string \<Rightarrow> string option) \<Rightarrow> string \<Rightarrow> string" where
  "removeMatches m [] = []"
| "removeMatches m (c # cs) =
     (case m (c # cs) of
        Some rest \<Rightarrow>
          if length rest \<le> length cs then removeMatches m rest else c # removeMatches m cs
      | None \<Rightarrow> c # removeMatches m cs)"
  by pat_completeness auto
termination
  by (relation "measure (\<lambda>(m, s). length s)") auto

text \<open>A literal of ASCII letters under the \<^verbatim>\<open>i\<close> flag at the head of \<open>s\<close>.\<close>

definition isPrefixCI :: "string \<Rightarrow> string \<Rightarrow> bool" where
  "isPrefixCI p s = isPrefix (toLowerCase p) (toLowerCase s)"

text \<open>\<^verbatim>\<open>/\s*(USD|EUR|GBP|CAD|AUD)\s*/gi\<close> at the head of \<open>s\<close>.\<close>

definition currencyAt :: "string \<Rightarrow> string option" where
  "currencyAt s =
     (let u = dropWhile isWhiteSpace s in
      if isPrefixCI ''USD'' u \<or> isPrefixCI ''EUR'' u \<or> isPrefixCI ''GBP'' u \<or>
         isPrefixCI ''CAD'' u \<or> isPrefixCI ''AUD'' u
      then Some (dropWhile isWhiteSpace (drop 3 u)) else None)"

text \<open>The currency signs of the price pattern in the range of the model: dollar,
  pound (U+00A3), yen (U+00A5).\<close>

definition isCurrencySign :: "char \<Rightarrow> bool" where
  "isCurrencySign c = (c = CHR ''$'' \<or> code c = 163 \<or> code c = 165)"

definition cleanPrice :: "string \<Rightarrow> string" where
  "cleanPrice priceStr =
     trim (removeMatches currencyAt
             (filter (\<lambda>c. c \<noteq> CHR '','')
                (filter (\<lambda>c. \<not> isCurrencySign c) (stripSpoilerTags priceStr))))"

definition parsePrice :: "string \<Rightarrow> number" where
  "parsePrice priceStr =
     (let parsed = parseFloat (cleanPrice priceStr) in
      if isNaN parsed then Num 0 else parsed)"

text \<open>\<^verbatim>\<open>/qty:?\s*/gi\<close> at the head of \<open>s\<close>.\<close>

definition qtyAt :: "string \<Rightarrow> string option" where
  "qtyAt s =
     (if isPrefixCI ''qty'' s then
        (case drop 3 s of
           [] \<Rightarrow> Some []
         | d # r \<Rightarrow>
             if d = CHR '':'' then Some (dropWhile isWhiteSpace r)
             else Some (dropWhile isWhiteSpace (d # r)))
      else None)"

definition cleanQuantity :: "string \<Rightarrow> string" where
  "cleanQuantity qtyStr =
     trim (removeMatches qtyAt (filter (\<lambda>c. c \<noteq> CHR ''x'' \<and> c \<noteq> CHR ''X'') qtyStr))"

definition parseQuantity :: "string \<Rightarrow> number" where
  "parseQuantity qtyStr =
     (let parsed = parseInt (cleanQuantity qtyStr) in
      if isNaN parsed then Num 1 else parsed)"

section \<open>\<^verbatim>\<open>parseWebhookMessage\<close>\<close>

record ParsedWebhookMessage =
  product :: string
  price :: number
  quantity :: number
  site :: string
  sku :: "string option"
  mode :: "string option"
  fulfillment_type :: "string option"
  profile :: "string option"
  order_id :: "string option"
  order_email :: "string option"
  order_link :: "string option"
  account :: "string option"
  raw_message_text :: string

text \<open>The body of the loop over the embed fields: every write is unconditional.\<close>

definition recordEmbedField :: "fieldMap \<times> itemMaps \<Rightarrow> EmbedField \<Rightarrow> fieldMap \<times> itemMaps" where
  "recordEmbedField st field =
     (case st of (embedShared, embedItems) \<Rightarrow>
      case parseFieldName (name field) of
        None \<Rightarrow> (embedShared, embedItems)
      | Some (baseName, index) \<Rightarrow>
          (case map_of FIELD_MAPPINGS baseName of
             None \<Rightarrow> (embedShared, embedItems)
           | Some mappedName \<Rightarrow>
               if baseName \<in> set PER_ITEM_FIELDS then
                 (embedShared,
                  setItemField (ensureItem embedItems index) index mappedName (trim (value field)))
               else if baseName \<in> set SHARED_FIELDS then
                 (mapSet embedShared mappedName (trim (value field)), embedItems)
               else (embedShared, embedItems)))"

text \<open>The first block of \<^verbatim>\<open>parseWebhookMessage\<close>: the pass over \<^verbatim>\<open>embed?.fields\<close>.\<close>

definition extractFieldsFromEmbed :: "Embed option \<Rightarrow> fieldMap \<times> itemMaps" where
  "extractFieldsFromEmbed emb =
     (case Option.bind emb embed_fields of
        None \<Rightarrow> ([], [])
      | Some fs \<Rightarrow> foldl recordEmbedField ([], []) fs)"

text \<open>\<^verbatim>\<open>new Map([...textShared, ...embedShared])\<close>\<close>

definition mergeShared :: "fieldMap \<Rightarrow> fieldMap \<Rightarrow> fieldMap" where
  "mergeShared textShared embedShared = newMap (textShared @ embedShared)"

text \<open>The merge of the items, and the single empty item when there is none.\<close>

definition mergeItems :: "itemMaps \<Rightarrow> itemMaps \<Rightarrow> itemMaps" where
  "mergeItems textItems embedItems =
     (let allItemIndices = newSet (map fst embedItems @ map fst textItems);
          items = foldl (\<lambda>items idx.
                    mapSet items idx (newMap (itemAt textItems idx @ itemAt embedItems idx)))
                    [] allItemIndices
      in if length items = 0 then mapSet items 0 [] else items)"

text \<open>\<^verbatim>\<open>m.get(k) || d\<close> and \<^verbatim>\<open>s || null\<close>: the empty string counts as absent.\<close>

definition getOr :: "fieldMap \<Rightarrow> string \<Rightarrow> string \<Rightarrow> string" where
  "getOr m k d = (case mapGet m k of None \<Rightarrow> d | Some v \<Rightarrow> if v = [] then d else v)"

definition orNull :: "string \<Rightarrow> string option" where
  "orNull s = (if s = [] then None else Some s)"

text \<open>The body of the loop that builds the purchases; \<open>None\<close> is the \<^verbatim>\<open>continue\<close>.\<close>

definition buildPurchase :: "fieldMap \<Rightarrow> string \<Rightarrow> fieldMap \<Rightarrow> ParsedWebhookMessage option" where
  "buildPurchase shared rawText itemFields =
     (let product' = stripSpoilerTags (getOr itemFields ''product'' []);
          priceStr = getOr itemFields ''price'' ''0'';
          qtyStr = getOr itemFields ''quantity'' ''1'';
          sku' = orNull (stripSpoilerTags (getOr itemFields ''sku'' []));
          site' = stripSpoilerTags (getOr shared ''site'' [])
      in if product' = [] \<or> site' = [] then None
         else Some \<lparr>
           product = product',
           price = parsePrice priceStr,
           quantity = parseQuantity qtyStr,
           site = site',
           sku = sku',
           mode = orNull (stripSpoilerTags (getOr shared ''mode'' [])),
           fulfillment_type = orNull (stripSpoilerTags (getOr shared ''fulfillment_type'' [])),
           profile = orNull (stripSpoilerTags (getOr shared ''profile'' [])),
           order_id = orNull (stripSpoilerTags (getOr shared ''order_id'' [])),
           order_email = orNull (stripSpoilerTags (getOr shared ''order_email'' [])),
           order_link = orNull (stripSpoilerTags (getOr shared ''order_link'' [])),
           account = orNull (stripSpoilerTags (getOr shared ''account'' [])),
           raw_message_text = rawText \<rparr>)"

fun buildPurchases :: "fieldMap \<Rightarrow> string \<Rightarrow> (int \<times> fieldMap) list \<Rightarrow> ParsedWebhookMessage list" where
  "buildPurchases shared rawText [] = []"
| "buildPurchases shared rawText (entry # rest) =
     (case buildPurchase shared rawText (snd entry) of
        None \<Rightarrow> buildPurchases shared rawText rest
      | Some purchase \<Rightarrow> purchase # buildPurchases shared rawText rest)"

text \<open>The merged maps of one call, and the entries of the items in ascending order of their
  index (the sort is stable).\<close>

definition mergedShared :: "Embed option \<Rightarrow> string \<Rightarrow> fieldMap" where
  "mergedShared emb rawText =
     mergeShared (fst (extractFieldsFromText rawText)) (fst (extractFieldsFromEmbed emb))"

definition mergedItems :: "Embed option \<Rightarrow> string \<Rightarrow> itemMaps" where
  "mergedItems emb rawText =
     mergeItems (snd (extractFieldsFromText rawText)) (snd (extractFieldsFromEmbed emb))"

definition parseWebhookMessage :: "Embed option \<Rightarrow> string \<Rightarrow> ParsedWebhookMessage list" where
  "parseWebhookMessage emb rawText =
     buildPurchases (mergedShared emb rawText) rawText
       (sort_key fst (mergedItems emb rawText))"

section \<open>Definitions for the statements\<close>

text \<open>A pair of maps as the program builds them: one entry per key, in the shared map and
  in the map of every item.\<close>

definition wellFormed :: "fieldMap \<times> itemMaps \<Rightarrow> bool" where
  "wellFormed st =
     (distinct (map fst (fst st)) \<and> (\<forall>e \<in> set (snd st). distinct (map fst (snd e))))"

text \<open>The place a field of the embed is written to: its canonical key, and the item index
  when the key is one of an item.\<close>

definition embedTarget :: "EmbedField \<Rightarrow> (string \<times> int option) option" where
  "embedTarget f =
     (case parseFieldName (name f) of
        None \<Rightarrow> None
      | Some (baseName, index) \<Rightarrow>
          (case map_of FIELD_MAPPINGS baseName of
             None \<Rightarrow> None
           | Some mappedName \<Rightarrow>
               if baseName \<in> set PER_ITEM_FIELDS then Some (mappedName, Some index)
               else if baseName \<in> set SHARED_FIELDS then Some (mappedName, None)
               else None))"

text \<open>What a pair of maps holds at such a place.\<close>

definition lookupTarget :: "fieldMap \<times> itemMaps \<Rightarrow> string \<times> int option \<Rightarrow> string option" where
  "lookupTarget st t =
     (case snd t of
        None \<Rightarrow> mapGet (fst st) (fst t)
      | Some index \<Rightarrow> mapGet (itemAt (snd st) index) (fst t))"

text \<open>Inputs for the examples: the line feed, the checkout text of the end-to-end example,
  an embed with a title only, embeds given by their fields.\<close>

definition LF :: char where
  "LF = CHR 0x0A"

definition checkoutText :: string where
  "checkoutText =
     ''Site'' @ LF # ''NikeStore'' @ LF # ''Product'' @ LF # ''Air Max'' @ LF #
     ''Price'' @ LF # ''$100'' @ LF # ''Qty'' @ LF # ''2''"

definition titleOnly :: Embed where
  "titleOnly = \<lparr>title = Some ''Successful Checkout'', description = None,
                 embed_fields = None, author = None\<rparr>"

definition withFields :: "EmbedField list \<Rightarrow> Embed" where
  "withFields fs = \<lparr>title = None, description = None, embed_fields = Some fs, author = None\<rparr>"

definition twoItems :: Embed where
  "twoItems = withFields
     [\<lparr>name = ''Site'', value = ''Shop''\<rparr>,
      \<lparr>name = ''Product (1)'', value = ''Shoe''\<rparr>,
      \<lparr>name = ''Product (2)'', value = ''||Hat||''\<rparr>,
      \<lparr>name = ''Price (1)'', value = ''$5''\<rparr>]"

definition twoItemsText :: string where
  "twoItemsText = ''Site: Web'' @ LF # ''Price (1): 9'' @ LF # ''Price (2): 7''"

definition gapItems :: Embed where
  "gapItems = withFields
     [\<lparr>name = ''Site'', value = ''Shop''\<rparr>,
      \<lparr>name = ''Product (2)'', value = ''||Hat||''\<rparr>,
      \<lparr>name = ''Price (1)'', value = ''$5''\<rparr>,
      \<lparr>name = ''Product (0)'', value = ''Shoe''\<rparr>]"

definition repeatedFields :: Embed where
  "repeatedFields = withFields
     [\<lparr>name = ''Site'', value = ''First''\<rparr>,
      \<lparr>name = ''Product'', value = ''A''\<rparr>,
      \<lparr>name = ''Site'', value = ''Second''\<rparr>,
      \<lparr>name = ''Product'', value = ''B''\<rparr>]"

definition buyNowFields :: Embed where
  "buyNowFields = withFields
     [\<lparr>name = ''Site'', value = ''Shop''\<rparr>,
      \<lparr>name = ''Product'', value = ''Shoe''\<rparr>,
      \<lparr>name = ''Buy Now'', value = ''Fast''\<rparr>,
      \<lparr>name = ''Buy Now ATC?'', value = ''Yes''\<rparr>]"

definition buyNowText :: string where
  "buyNowText =
     ''Site'' @ LF # ''Shop'' @ LF # ''Product'' @ LF # ''Shoe'' @ LF # ''Buy Now'' @ LF # ''Fast''"

definition negativeFields :: Embed where
  "negativeFields = withFields
     [\<lparr>name = ''Site'', value = ''Shop''\<rparr>,
      \<lparr>name = ''Product'', value = ''Shoe''\<rparr>,
      \<lparr>name = ''Price'', value = ''-5''\<rparr>,
      \<lparr>name = ''Qty'', value = ''0''\<rparr>]"

definition splitPhrase :: Embed where
  "splitPhrase = \<lparr>title = Some ''Successful'', description = Some ''Checkout'',
                   embed_fields = None, author = None\<rparr>"

definition buyNowAgainstText :: Embed where
  "buyNowAgainstText = withFields
     [\<lparr>name = ''Site'', value = ''Shop''\<rparr>,
      \<lparr>name = ''Product'', value = ''Shoe''\<rparr>,
      \<lparr>name = ''Buy Now'', value = ''Fast''\<rparr>]"

definition modeSlowText :: string where
  "modeSlowText = ''Mode: Slow''"

definition oneItem :: Embed where
  "oneItem = withFields
     [\<lparr>name = ''Site'', value = ''Shop''\<rparr>,
      \<lparr>name = ''Product (1)'', value = ''Y''\<rparr>]"

definition zeroLabelText :: string where
  "zeroLabelText = ''Product (0): Z''"

text \<open>A number that is at least zero.\<close>

definition nonNegative :: "number \<Rightarrow> bool" where
  "nonNegative n = (case n of Num q \<Rightarrow> 0 \<le> q | PosInfinity \<Rightarrow> True | NaN \<Rightarrow> False | NegInfinity \<Rightarrow> False)"

text \<open>A number without a fraction: a whole number or an infinity.\<close>

definition wholeOrInfinite :: "number \<Rightarrow> bool" where
  "wholeOrInfinite n =
     (case n of Num q \<Rightarrow> of_int \<lfloor>q\<rfloor> = q | PosInfinity \<Rightarrow> True | NegInfinity \<Rightarrow> True
      | NaN \<Rightarrow> False)"

section \<open>The scans always move forward\<close>

text \<open>A match is never empty, so the length tests in \<open>colonMatches\<close> and
  \<open>removeMatches\<close> always succeed for the patterns of the program.\<close>

lemma colonValue_shorter:
  assumes "colonValue t = Some (g2, rest)"
  shows "length rest < length t"
proof (cases "dropWhile isWhiteSpace t = []")
  case True
  with assms have w: "rev (dropWhile isLineTerminator (rev t)) \<noteq> []"
    and r: "rest = drop (length (rev (dropWhile isLineTerminator (rev t)))) t"
    by (auto simp: colonValue_def Let_def split: if_splits)
  from w have "t \<noteq> []" by auto
  with w r show ?thesis by simp
next
  case False
  let ?u = "dropWhile isWhiteSpace t"
  from False assms have r: "rest = dropWhile (\<lambda>c. \<not> isLineTerminator c) ?u"
    by (auto simp: colonValue_def Let_def)
  from False have "\<not> isWhiteSpace (hd ?u)" by (rule hd_dropWhile)
  then have "\<not> isLineTerminator (hd ?u)"
    by (auto simp: isWhiteSpace_def isLineTerminator_def)
  with False have "length (dropWhile (\<lambda>c. \<not> isLineTerminator c) ?u) < length ?u"
    by (cases ?u) (auto simp: le_imp_less_Suc length_dropWhile_le)
  with r show ?thesis
    using length_dropWhile_le [of isWhiteSpace t] by simp
qed

lemma colonMatchAt_shorter:
  assumes "colonMatchAt (c # cs) = Some (g1, g2, rest)"
  shows "length rest \<le> length cs"
proof -
  from assms obtain d t where d: "dropWhile colonClass cs = d # t"
    and v: "colonValue t = Some (g2, rest)"
    by (auto simp: colonMatchAt_def split: if_splits list.splits option.splits)
  have "length (d # t) \<le> length cs"
    using length_dropWhile_le [of colonClass cs] by (simp add: d)
  with colonValue_shorter [OF v] show ?thesis by simp
qed

lemma colonMatches_at_line_start:
  "colonMatches True (c # cs) =
     (case colonMatchAt (c # cs) of
        Some (g1, g2, rest) \<Rightarrow> (g1, g2) # colonMatches False rest
      | None \<Rightarrow> colonMatches (isLineTerminator c) cs)"
  by (auto simp: colonMatchAt_shorter split: option.splits)

lemma isPrefix_length: "isPrefix p s \<Longrightarrow> length p \<le> length s"
  by (induction p s rule: isPrefix.induct) auto

lemma isPrefixCI_length: "isPrefixCI p s \<Longrightarrow> length p \<le> length s"
  using isPrefix_length [of "toLowerCase p" "toLowerCase s"]
  by (simp add: isPrefixCI_def toLowerCase_def)

lemma currencyAt_shorter:
  assumes "currencyAt (c # cs) = Some rest"
  shows "length rest \<le> length cs"
proof -
  let ?u = "dropWhile isWhiteSpace (c # cs)"
  from assms have r: "rest = dropWhile isWhiteSpace (drop 3 ?u)" and "3 \<le> length ?u"
    by (auto simp: currencyAt_def Let_def split: if_splits dest: isPrefixCI_length)
  then have "length (drop 3 ?u) < length (c # cs)"
    using length_dropWhile_le [of isWhiteSpace "c # cs"] by simp
  then show ?thesis
    using length_dropWhile_le [of isWhiteSpace "drop 3 ?u"] r by simp
qed

lemma qtyAt_shorter:
  assumes "qtyAt (c # cs) = Some rest"
  shows "length rest \<le> length cs"
proof -
  from assms have p: "3 \<le> length (c # cs)"
    by (auto simp: qtyAt_def split: if_splits dest: isPrefixCI_length)
  show ?thesis
  proof (cases "drop 3 (c # cs)")
    case Nil
    with assms show ?thesis by (auto simp: qtyAt_def split: if_splits)
  next
    case (Cons d r)
    with assms have "rest = dropWhile isWhiteSpace r \<or> rest = dropWhile isWhiteSpace (d # r)"
      by (simp add: qtyAt_def split: if_splits)
    then have "length rest \<le> length (d # r)"
      using length_dropWhile_le [of isWhiteSpace r] length_dropWhile_le [of isWhiteSpace "d # r"]
      by auto
    also have "\<dots> = length (c # cs) - 3" by (simp add: Cons [symmetric])
    finally show ?thesis using p by simp
  qed
qed

lemma removeMatches_currency:
  "removeMatches currencyAt (c # cs) =
     (case currencyAt (c # cs) of
        Some rest \<Rightarrow> removeMatches currencyAt rest
      | None \<Rightarrow> c # removeMatches currencyAt cs)"
  by (auto simp: currencyAt_shorter split: option.splits)

lemma removeMatches_qty:
  "removeMatches qtyAt (c # cs) =
     (case qtyAt (c # cs) of
        Some rest \<Rightarrow> removeMatches qtyAt rest
      | None \<Rightarrow> c # removeMatches qtyAt cs)"
  by (auto simp: qtyAt_shorter split: option.splits)

section \<open>Properties of the maps\<close>

lemma map_of_foldl_update:
  "map_of (foldl (\<lambda>m (k, v). AList.update k v m) acc es) = map_of acc ++ map_of (rev es)"
  by (induction es arbitrary: acc) (auto simp: AList.update_conv' map_add_def fun_eq_iff split: option.splits)

lemma map_of_rev_distinct:
  assumes "distinct (map fst xs)"
  shows "map_of (rev xs) = map_of xs"
proof
  fix k
  have d: "distinct (map fst (rev xs))"
    using assms by (simp add: rev_map [symmetric])
  show "map_of (rev xs) k = map_of xs k"
  proof (cases "map_of xs k")
    case None
    then have "k \<notin> fst ` set xs" by (simp add: map_of_eq_None_iff)
    then have "map_of (rev xs) k = None" by (simp add: map_of_eq_None_iff)
    with None show ?thesis by simp
  next
    case (Some v)
    then have "(k, v) \<in> set (rev xs)" using assms by (simp add: map_of_eq_Some_iff)
    then have "map_of (rev xs) k = Some v" using d by (simp only: map_of_eq_Some_iff)
    with Some show ?thesis by simp
  qed
qed

lemma mapGet_newMap_append:
  assumes "distinct (map fst later)" and "mapGet later k = Some v"
  shows "mapGet (newMap (earlier @ later)) k = Some v"
proof -
  have "map_of (newMap (earlier @ later)) = map_of (rev earlier) ++ map_of (rev later)"
    by (simp add: newMap_def mapSet_def map_of_foldl_update)
  moreover have "map_of (rev later) k = Some v"
    using assms by (simp add: map_of_rev_distinct mapGet_def)
  ultimately show ?thesis by (simp add: mapGet_def map_add_def)
qed

lemma distinct_newMap: "distinct (map fst (newMap es))"
proof -
  have "distinct (map fst acc) \<Longrightarrow> distinct (map fst (foldl (\<lambda>m (k, v). mapSet m k v) acc es))" for acc :: "('a \<times> 'b) list"
    by (induction es arbitrary: acc) (auto simp: mapSet_def AList.distinct_update)
  then show ?thesis by (simp add: newMap_def)
qed

lemma set_newSet: "set (newSet xs) = set xs"
proof -
  have "set (foldl (\<lambda>acc x. if x \<in> set acc then acc else acc @ [x]) acc xs) = set acc \<union> set xs" for acc :: "'a list"
    by (induction xs arbitrary: acc) auto
  then show ?thesis by (simp add: newSet_def)
qed

lemma mapGet_foldl_mapSet:
  "mapGet (foldl (\<lambda>items idx. mapSet items idx (f idx)) acc xs) i =
     (if i \<in> set xs then Some (f i) else mapGet acc i)"
  by (induction xs arbitrary: acc) (auto simp: mapGet_def mapSet_def AList.update_conv')

lemma mapGet_Some_mem: "mapGet m k = Some v \<Longrightarrow> (k, v) \<in> set m"
  by (simp add: mapGet_def map_of_SomeD)

lemma set_update_subset: "set (AList.update k v al) \<subseteq> insert (k, v) (set al)"
  by (induction al) auto

section \<open>Properties of the merge\<close>

lemma mapGet_mergeItems:
  assumes "mapGet embedItems idx = Some m"
  shows "mapGet (mergeItems textItems embedItems) idx =
           Some (newMap (itemAt textItems idx @ m))"
proof -
  let ?xs = "newSet (map fst embedItems @ map fst textItems)"
  let ?items = "foldl (\<lambda>items idx.
                    mapSet items idx (newMap (itemAt textItems idx @ itemAt embedItems idx)))
                    [] ?xs"
  have "idx \<in> set ?xs"
    using mapGet_Some_mem [OF assms] by (force simp: set_newSet)
  then have g: "mapGet ?items idx = Some (newMap (itemAt textItems idx @ itemAt embedItems idx))"
    by (simp add: mapGet_foldl_mapSet)
  then have "?items \<noteq> []" by (auto simp: mapGet_def)
  with g show ?thesis using assms by (simp add: mergeItems_def Let_def itemAt_def)
qed

section \<open>Properties of the loop that builds the purchases\<close>

lemma buildPurchases_mem:
  "p \<in> set (buildPurchases sh raw es) \<longleftrightarrow> (\<exists>e \<in> set es. buildPurchase sh raw (snd e) = Some p)"
  by (induction es) (auto split: option.splits)

lemma buildPurchases_append:
  "buildPurchases sh raw (xs @ ys) = buildPurchases sh raw xs @ buildPurchases sh raw ys"
  by (induction xs) (auto split: option.splits)

lemma buildPurchase_None:
  "buildPurchase sh raw m = None \<longleftrightarrow>
     stripSpoilerTags (getOr m ''product'' []) = [] \<or> stripSpoilerTags (getOr sh ''site'' []) = []"
  by (simp add: buildPurchase_def Let_def)

lemma buildPurchase_required:
  "buildPurchase sh raw m = Some p \<Longrightarrow> product p \<noteq> [] \<and> site p \<noteq> []"
  by (auto simp: buildPurchase_def Let_def split: if_splits)

lemma buildPurchase_shared:
  assumes "buildPurchase sh raw m = Some p"
  shows "site p = stripSpoilerTags (getOr sh ''site'' [])"
    and "mode p = orNull (stripSpoilerTags (getOr sh ''mode'' []))"
    and "fulfillment_type p = orNull (stripSpoilerTags (getOr sh ''fulfillment_type'' []))"
    and "profile p = orNull (stripSpoilerTags (getOr sh ''profile'' []))"
    and "order_id p = orNull (stripSpoilerTags (getOr sh ''order_id'' []))"
    and "order_email p = orNull (stripSpoilerTags (getOr sh ''order_email'' []))"
    and "order_link p = orNull (stripSpoilerTags (getOr sh ''order_link'' []))"
    and "account p = orNull (stripSpoilerTags (getOr sh ''account'' []))"
    and "raw_message_text p = raw"
  using assms by (auto simp: buildPurchase_def Let_def split: if_splits)

lemma buildPurchase_item:
  assumes "buildPurchase sh raw m = Some p"
  shows "product p = stripSpoilerTags (getOr m ''product'' [])"
    and "price p = parsePrice (getOr m ''price'' ''0'')"
    and "quantity p = parseQuantity (getOr m ''quantity'' ''1'')"
    and "sku p = orNull (stripSpoilerTags (getOr m ''sku'' []))"
  using assms by (auto simp: buildPurchase_def Let_def split: if_splits)

lemma parse_mem:
  "p \<in> set (parseWebhookMessage emb rawText) \<longleftrightarrow>
     (\<exists>e \<in> set (mergedItems emb rawText).
        buildPurchase (mergedShared emb rawText) rawText (snd e) = Some p)"
  by (simp add: parseWebhookMessage_def buildPurchases_mem)

lemma getOr_Some: "mapGet m k = Some v \<Longrightarrow> getOr m k [] = v"
  by (simp add: getOr_def)

section \<open>The maps of the embed pass have one entry per key\<close>

lemma wellFormed_setItemField:
  assumes "\<forall>e \<in> set items. distinct (map fst (snd e))"
  shows "\<forall>e \<in> set (setItemField (ensureItem items i) i k v). distinct (map fst (snd e))"
proof -
  let ?items = "ensureItem items i"
  have a: "\<forall>e \<in> set ?items. distinct (map fst (snd e))"
    using assms set_update_subset [of i "[]" items]
    by (auto simp: ensureItem_def mapSet_def)
  have "distinct (map fst (itemAt ?items i))"
    using a by (fastforce simp: itemAt_def dest: mapGet_Some_mem split: option.splits)
  then have "distinct (map fst (mapSet (itemAt ?items i) k v))"
    by (simp add: mapSet_def AList.distinct_update)
  then show ?thesis
    using a set_update_subset [of i "mapSet (itemAt ?items i) k v" ?items]
    by (auto simp: setItemField_def mapSet_def)
qed

lemma wellFormed_recordEmbedField:
  assumes "wellFormed st"
  shows "wellFormed (recordEmbedField st f)"
proof (cases st)
  case (Pair sh items)
  with assms have d: "distinct (map fst sh)" and i: "\<forall>e \<in> set items. distinct (map fst (snd e))"
    by (simp_all add: wellFormed_def)
  show ?thesis
    using d i wellFormed_setItemField [OF i]
    by (auto simp: Pair recordEmbedField_def wellFormed_def mapSet_def AList.distinct_update
             split: option.splits)
qed

lemma wellFormed_foldl:
  "wellFormed st \<Longrightarrow> wellFormed (foldl recordEmbedField st fs)"
  by (induction fs arbitrary: st) (simp_all add: wellFormed_recordEmbedField)

lemma wellFormed_extractFieldsFromEmbed: "wellFormed (extractFieldsFromEmbed emb)"
proof -
  have "wellFormed ([], [])" by (simp add: wellFormed_def)
  then show ?thesis
    by (auto simp: extractFieldsFromEmbed_def wellFormed_foldl split: option.splits)
qed

section \<open>The embed pass: the last field of a key decides\<close>

lemma itemAt_ensureItem: "itemAt (ensureItem items i) j = itemAt items j"
  by (auto simp: itemAt_def ensureItem_def mapGet_def mapHas_def mapSet_def AList.update_conv')

lemma itemAt_setItemField:
  "itemAt (setItemField items i k v) j =
     (if j = i then mapSet (itemAt items i) k v else itemAt items j)"
  by (auto simp: itemAt_def setItemField_def mapGet_def mapSet_def AList.update_conv')

lemma recordEmbedField_same:
  "embedTarget f = Some t \<Longrightarrow> lookupTarget (recordEmbedField st f) t = Some (trim (value f))"
  by (cases st; cases t)
     (auto simp: embedTarget_def recordEmbedField_def lookupTarget_def itemAt_setItemField
                 mapGet_def mapSet_def AList.update_conv'
           split: option.splits if_splits)

lemma recordEmbedField_other:
  "embedTarget g \<noteq> Some t \<Longrightarrow> lookupTarget (recordEmbedField st g) t = lookupTarget st t"
  by (cases st; cases t)
     (auto simp: embedTarget_def recordEmbedField_def lookupTarget_def itemAt_setItemField
                 itemAt_ensureItem mapGet_def mapSet_def AList.update_conv'
           split: option.splits if_splits)

lemma foldl_recordEmbedField_other:
  "\<forall>g \<in> set post. embedTarget g \<noteq> Some t \<Longrightarrow>
     lookupTarget (foldl recordEmbedField st post) t = lookupTarget st t"
  by (induction post arbitrary: st) (simp_all add: recordEmbedField_other)

lemmas char_defs = code_def isWhiteSpace_def isLineTerminator_def isDigit_def isLower_def
  isUpper_def lowerChar_def colonClass_def isCurrencySign_def LF_def
lemmas str_defs = trimStart_def trimEnd_def trim_def toLowerCase_def digitsValue_def
  isPrefixCI_def
lemmas map_defs = mapGet_def mapHas_def mapSet_def newMap_def newSet_def ensureItem_def
  itemAt_def setItemField_def getOr_def orNull_def
lemmas table_defs = FIELD_MAPPINGS_def PER_ITEM_FIELDS_def SHARED_FIELDS_def isMapped_def
lemmas field_defs = numberedMatch_def parseFieldName_def table_defs str_defs char_defs Let_def
lemmas text_defs = recordLinePair_def colonValue_def colonMatchAt_def recordColon_def
  textLines_def
lemmas num_defs = isNaN_def exponentPart_def scale10_def nearestDouble_def roundToDouble_def
  parseUnsigned_def parseFloat_def parseIntDigits_def parseInt_def
lemmas clean_defs = stripSpoilerTags_def currencyAt_def cleanPrice_def parsePrice_def qtyAt_def
  cleanQuantity_def parseQuantity_def
lemmas value_defs = clean_defs num_defs str_defs char_defs Let_def
lemmas merge_defs = mergeShared_def mergeItems_def buildPurchase_def mergedShared_def
  mergedItems_def parseWebhookMessage_def map_defs table_defs Let_def

section \<open>Labels\<close>

lemma parseFieldName_labels:
  "parseFieldName ''Site'' = Some (''site'', 0)"
  "parseFieldName ''Product'' = Some (''product'', 0)"
  "parseFieldName ''Price'' = Some (''price'', 0)"
  "parseFieldName ''Qty'' = Some (''qty'', 0)"
  "parseFieldName ''Product (1)'' = Some (''product'', 0)"
  "parseFieldName ''Product (2)'' = Some (''product'', 1)"
  "parseFieldName ''Price (1)'' = Some (''price'', 0)"
  "parseFieldName ''Price (2)'' = Some (''price'', 1)"
  "parseFieldName ''Product (0)'' = Some (''product'', - 1)"
  "parseFieldName ''Buy Now'' = Some (''buy now'', 0)"
  "parseFieldName ''Buy Now ATC?'' = Some (''buy now atc?'', 0)"
  by (simp_all add: field_defs)

lemma parseFieldName_values:
  "parseFieldName ''NikeStore'' = None"
  "parseFieldName ''Air Max'' = None"
  "parseFieldName ''$100'' = None"
  "parseFieldName ''2'' = None"
  "parseFieldName ''Fast'' = None"
  by (simp_all add: field_defs)

section \<open>The checkout text\<close>

lemma textLines_checkoutText:
  "textLines checkoutText =
     [''Site'', ''NikeStore'', ''Product'', ''Air Max'', ''Price'', ''$100'', ''Qty'', ''2'']"
  by (simp add: checkoutText_def textLines_def str_defs char_defs)

lemma colonMatches_checkoutText: "colonMatches True checkoutText = []"
  by (simp add: checkoutText_def colonMatchAt_def colonValue_def char_defs)

lemma extract_checkoutText:
  "extractFieldsFromText checkoutText =
     ([(''site'', ''NikeStore'')],
      [(0, [(''product'', ''Air Max''), (''price'', ''$100''), (''quantity'', ''2'')])])"
  by (simp add: extractFieldsFromText_def textLines_checkoutText colonMatches_checkoutText
        parseFieldName_labels parseFieldName_values recordLinePair_def map_defs table_defs)

lemma values_checkout:
  "parsePrice ''$100'' = Num 100" "parseQuantity ''2'' = Num 2"
  "stripSpoilerTags ''Air Max'' = ''Air Max''" "stripSpoilerTags ''NikeStore'' = ''NikeStore''"
  "stripSpoilerTags [] = []"
  by (simp_all add: value_defs)

lemma parse_checkout_None:
  "parseWebhookMessage None checkoutText =
   [\<lparr>product = ''Air Max'', price = Num 100, quantity = Num 2,
     site = ''NikeStore'', sku = None, mode = None, fulfillment_type = None,
     profile = None, order_id = None, order_email = None, order_link = None,
     account = None, raw_message_text = checkoutText\<rparr>]"
  by (simp add: merge_defs extract_checkoutText extractFieldsFromEmbed_def values_checkout)


section \<open>Evaluation of the examples\<close>

lemma parseFieldName_more:
  "parseFieldName ''Shop'' = None"
  "parseFieldName ''Shoe'' = None"
  "parseFieldName ''Site: Web'' = None"
  "parseFieldName ''Price (1): 9'' = None"
  "parseFieldName ''Price (2): 7'' = None"
  by (simp_all add: field_defs)

lemma values_examples:
  "stripSpoilerTags ''Shop'' = ''Shop''" "stripSpoilerTags ''Shoe'' = ''Shoe''"
  "stripSpoilerTags ''||Hat||'' = ''Hat''" "stripSpoilerTags ''Second'' = ''Second''"
  "stripSpoilerTags ''B'' = ''B''"
  "parsePrice ''$5'' = Num 5" "parsePrice ''7'' = Num 7" "parsePrice ''0'' = Num 0"
  "parsePrice ''-5'' = Num (- 5)" "parseQuantity ''1'' = Num 1" "parseQuantity ''0'' = Num 0"
  by (simp_all add: value_defs)

lemmas embed_defs = extractFieldsFromEmbed_def withFields_def recordEmbedField_def
  parseFieldName_labels map_defs table_defs

lemma extract_twoItems:
  "extractFieldsFromEmbed (Some twoItems) =
     ([(''site'', ''Shop'')],
      [(0, [(''product'', ''Shoe''), (''price'', ''$5'')]), (1, [(''product'', ''||Hat||'')])])"
  by (simp add: twoItems_def embed_defs str_defs char_defs)

lemma colonMatches_twoItemsText:
  "colonMatches True twoItemsText =
     [(''Site'', ''Web''), (''Price (1)'', ''9''), (''Price (2)'', ''7'')]"
  by (simp add: twoItemsText_def colonMatchAt_def colonValue_def char_defs)

lemma textLines_twoItemsText:
  "textLines twoItemsText = [''Site: Web'', ''Price (1): 9'', ''Price (2): 7'']"
  by (simp add: twoItemsText_def textLines_def str_defs char_defs)

lemma extract_twoItemsText:
  "extractFieldsFromText twoItemsText =
     ([(''site'', ''Web'')], [(0, [(''price'', ''9'')]), (1, [(''price'', ''7'')])])"
  by (simp add: extractFieldsFromText_def textLines_twoItemsText colonMatches_twoItemsText
        parseFieldName_labels parseFieldName_more recordColon_def map_defs table_defs
        str_defs char_defs)

lemma merged_twoItems:
  "mergedShared (Some twoItems) twoItemsText = [(''site'', ''Shop'')]"
  "mergedItems (Some twoItems) twoItemsText =
     [(0, [(''price'', ''$5''), (''product'', ''Shoe'')]),
      (1, [(''price'', ''7''), (''product'', ''||Hat||'')])]"
  by (simp_all add: mergedShared_def mergedItems_def mergeShared_def mergeItems_def
        extract_twoItems extract_twoItemsText map_defs)

lemma parse_twoItems:
  "parseWebhookMessage (Some twoItems) twoItemsText =
     [\<lparr>product = ''Shoe'', price = Num 5, quantity = Num 1, site = ''Shop'', sku = None,
       mode = None, fulfillment_type = None, profile = None, order_id = None,
       order_email = None, order_link = None, account = None,
       raw_message_text = twoItemsText\<rparr>,
      \<lparr>product = ''Hat'', price = Num 7, quantity = Num 1, site = ''Shop'', sku = None,
       mode = None, fulfillment_type = None, profile = None, order_id = None,
       order_email = None, order_link = None, account = None,
       raw_message_text = twoItemsText\<rparr>]"
  by (simp add: parseWebhookMessage_def merged_twoItems buildPurchase_def map_defs
        values_examples values_checkout)

lemma extract_empty_text: "extractFieldsFromText [] = ([], [])"
  by (simp add: extractFieldsFromText_def textLines_def str_defs)

lemma extract_gapItems:
  "extractFieldsFromEmbed (Some gapItems) =
     ([(''site'', ''Shop'')],
      [(1, [(''product'', ''||Hat||'')]), (0, [(''price'', ''$5'')]),
       (- 1, [(''product'', ''Shoe'')])])"
  by (simp add: gapItems_def embed_defs str_defs char_defs)

lemma merged_gapItems:
  "mergedShared (Some gapItems) [] = [(''site'', ''Shop'')]"
  "mergedItems (Some gapItems) [] =
     [(1, [(''product'', ''||Hat||'')]), (0, [(''price'', ''$5'')]),
      (- 1, [(''product'', ''Shoe'')])]"
  "sort_key fst (mergedItems (Some gapItems) []) =
     [(- 1, [(''product'', ''Shoe'')]), (0, [(''price'', ''$5'')]),
      (1, [(''product'', ''||Hat||'')])]"
  by (simp_all add: mergedShared_def mergedItems_def mergeShared_def mergeItems_def
        extract_gapItems extract_empty_text map_defs)

lemma parse_gapItems:
  "parseWebhookMessage (Some gapItems) [] =
     [\<lparr>product = ''Shoe'', price = Num 0, quantity = Num 1, site = ''Shop'', sku = None,
       mode = None, fulfillment_type = None, profile = None, order_id = None,
       order_email = None, order_link = None, account = None, raw_message_text = []\<rparr>,
      \<lparr>product = ''Hat'', price = Num 0, quantity = Num 1, site = ''Shop'', sku = None,
       mode = None, fulfillment_type = None, profile = None, order_id = None,
       order_email = None, order_link = None, account = None, raw_message_text = []\<rparr>]"
  by (simp add: parseWebhookMessage_def merged_gapItems buildPurchase_def map_defs
        values_examples values_checkout)

lemma extract_repeatedFields:
  "extractFieldsFromEmbed (Some repeatedFields) =
     ([(''site'', ''Second'')], [(0, [(''product'', ''B'')])])"
  by (simp add: repeatedFields_def embed_defs str_defs char_defs)

lemma extract_buyNowFields:
  "extractFieldsFromEmbed (Some buyNowFields) =
     ([(''site'', ''Shop'')], [(0, [(''product'', ''Shoe'')])])"
  by (simp add: buyNowFields_def embed_defs str_defs char_defs)

lemma extract_negativeFields:
  "extractFieldsFromEmbed (Some negativeFields) =
     ([(''site'', ''Shop'')],
      [(0, [(''product'', ''Shoe''), (''price'', ''-5''), (''quantity'', ''0'')])])"
  by (simp add: negativeFields_def embed_defs str_defs char_defs)

lemma textLines_buyNowText:
  "textLines buyNowText = [''Site'', ''Shop'', ''Product'', ''Shoe'', ''Buy Now'', ''Fast'']"
  by (simp add: buyNowText_def textLines_def str_defs char_defs)

lemma colonMatches_buyNowText: "colonMatches True buyNowText = []"
  by (simp add: buyNowText_def colonMatchAt_def colonValue_def char_defs)

lemma extract_buyNowText:
  "extractFieldsFromText buyNowText = ([(''site'', ''Shop'')], [(0, [(''product'', ''Shoe'')])])"
  by (simp add: extractFieldsFromText_def textLines_buyNowText colonMatches_buyNowText
        parseFieldName_labels parseFieldName_values parseFieldName_more recordLinePair_def
        map_defs table_defs)

lemmas build_defs = parseWebhookMessage_def mergedShared_def mergedItems_def mergeShared_def
  mergeItems_def buildPurchase_def map_defs values_examples values_checkout Let_def

lemma parse_buyNowFields:
  "parseWebhookMessage (Some buyNowFields) [] =
     [\<lparr>product = ''Shoe'', price = Num 0, quantity = Num 1, site = ''Shop'', sku = None,
       mode = None, fulfillment_type = None, profile = None, order_id = None,
       order_email = None, order_link = None, account = None, raw_message_text = []\<rparr>]"
  by (simp add: build_defs extract_buyNowFields extract_empty_text)

lemma extract_no_embed: "extractFieldsFromEmbed None = ([], [])"
  by (simp add: extractFieldsFromEmbed_def)

lemma parse_buyNowText:
  "parseWebhookMessage None buyNowText =
     [\<lparr>product = ''Shoe'', price = Num 0, quantity = Num 1, site = ''Shop'', sku = None,
       mode = None, fulfillment_type = None, profile = None, order_id = None,
       order_email = None, order_link = None, account = None, raw_message_text = buyNowText\<rparr>]"
  by (simp add: build_defs extract_buyNowText extract_no_embed)

lemma parse_negativeFields:
  "parseWebhookMessage (Some negativeFields) [] =
     [\<lparr>product = ''Shoe'', price = Num (- 5), quantity = Num 0, site = ''Shop'', sku = None,
       mode = None, fulfillment_type = None, profile = None, order_id = None,
       order_email = None, order_link = None, account = None, raw_message_text = []\<rparr>]"
  by (simp add: build_defs extract_negativeFields extract_empty_text)

section \<open>Signs of the parsed numbers\<close>

lemma scale10_nonneg: "0 \<le> q \<Longrightarrow> 0 \<le> scale10 q e"
  by (simp add: scale10_def)

lemma nearestDouble_sign: "0 \<le> q \<Longrightarrow> nonNegative (nearestDouble q)"
  by (simp add: nearestDouble_def nonNegative_def)

lemma parseUnsigned_sign: "parseUnsigned s = NaN \<or> nonNegative (parseUnsigned s)"
proof -
  have "nonNegative PosInfinity" by (simp add: nonNegative_def)
  then show ?thesis
    by (auto simp: parseUnsigned_def Let_def nearestDouble_sign scale10_nonneg
             split: list.splits)
qed

lemma parseFloat_sign:
  assumes "CHR ''-'' \<notin> set s"
  shows "parseFloat s = NaN \<or> nonNegative (parseFloat s)"
proof (cases "trimStart s")
  case Nil
  then show ?thesis by (simp add: parseFloat_def)
next
  case (Cons c r)
  then have "c \<in> set s"
    using set_dropWhileD [of c isWhiteSpace s] by (simp add: trimStart_def)
  with assms have "c \<noteq> CHR ''-''" by auto
  then show ?thesis
    using parseUnsigned_sign [of r] parseUnsigned_sign [of "c # r"]
    by (auto simp: parseFloat_def Cons)
qed

lemma roundToDouble_sign: "nonNegative (roundToDouble n)"
  by (simp add: roundToDouble_def nonNegative_def Let_def)

lemma roundToDouble_whole: "wholeOrInfinite (roundToDouble n)"
  by (simp add: roundToDouble_def wholeOrInfinite_def Let_def)

lemma roundToDouble_not_NaN: "roundToDouble n \<noteq> NaN"
  by (simp add: roundToDouble_def Let_def)

lemma wholeOrInfinite_negate: "wholeOrInfinite n \<Longrightarrow> wholeOrInfinite (negate n)"
proof (cases n)
  case (Num q)
  assume "wholeOrInfinite n"
  with Num have "of_int \<lfloor>q\<rfloor> = q" by (simp add: wholeOrInfinite_def)
  then obtain k :: int where "q = of_int k" by metis
  then have "- q = of_int (- k)" by simp
  then have "of_int \<lfloor>- q\<rfloor> = - q" by (simp only: floor_of_int)
  with Num show ?thesis by (simp add: wholeOrInfinite_def)
qed (simp_all add: wholeOrInfinite_def)

lemma parseIntDigits_whole: "parseIntDigits s = NaN \<or> wholeOrInfinite (parseIntDigits s)"
  by (simp add: parseIntDigits_def roundToDouble_whole)

lemma parseInt_whole: "parseInt s = NaN \<or> wholeOrInfinite (parseInt s)"
proof (cases "trimStart s")
  case Nil
  then show ?thesis by (simp add: parseInt_def)
next
  case (Cons c r)
  show ?thesis
    using parseIntDigits_whole [of r] parseIntDigits_whole [of "c # r"]
    by (auto simp: parseInt_def Cons wholeOrInfinite_negate)
qed

lemma parseInt_sign:
  assumes "CHR ''-'' \<notin> set s"
  shows "parseInt s = NaN \<or> nonNegative (parseInt s)"
proof (cases "trimStart s")
  case Nil
  then show ?thesis by (simp add: parseInt_def)
next
  case (Cons c r)
  then have "c \<in> set s"
    using set_dropWhileD [of c isWhiteSpace s] by (simp add: trimStart_def)
  with assms have "c \<noteq> CHR ''-''" by auto
  then show ?thesis
    by (auto simp: parseInt_def Cons parseIntDigits_def roundToDouble_sign)
qed

lemma set_trim: "set (trim s) \<subseteq> set s"
proof
  fix c assume "c \<in> set (trim s)"
  then have "c \<in> set (dropWhile isWhiteSpace (rev (dropWhile isWhiteSpace s)))"
    by (simp add: trim_def trimEnd_def trimStart_def)
  then have "c \<in> set (dropWhile isWhiteSpace s)"
    using set_dropWhileD by fastforce
  then show "c \<in> set s" by (rule set_dropWhileD)
qed

lemma set_stripSpoilerTags: "set (stripSpoilerTags v) \<subseteq> set v"
proof -
  have a: "set (take n (drop 2 v)) \<subseteq> set v" for n
    by (meson in_set_dropD in_set_takeD subsetI)
  show ?thesis
  proof (cases "5 \<le> length v \<and> take 2 v = ''||'' \<and> drop (length v - 2) v = ''||''")
    case True
    then have "stripSpoilerTags v = trim (take (length v - 4) (drop 2 v))"
      by (simp add: stripSpoilerTags_def)
    then show ?thesis
      using set_trim [of "take (length v - 4) (drop 2 v)"] a [of "length v - 4"] by simp
  next
    case False
    then have "stripSpoilerTags v = trim v"
      by (auto simp: stripSpoilerTags_def)
    then show ?thesis using set_trim [of v] by simp
  qed
qed

lemma set_removeMatches:
  "(\<forall>t r. m t = Some r \<longrightarrow> set r \<subseteq> set t) \<Longrightarrow> set (removeMatches m s) \<subseteq> set s"
proof (induction m s rule: removeMatches.induct)
  case (1 m)
  then show ?case by simp
next
  case (2 m c cs)
  show ?case
  proof (cases "m (c # cs)")
    case None
    with 2 show ?thesis by auto
  next
    case (Some rest)
    with 2 have sub: "set rest \<subseteq> set (c # cs)" by blast
    show ?thesis
    proof (cases "length rest \<le> length cs")
      case True
      with 2 Some have "set (removeMatches m rest) \<subseteq> set rest" by blast
      with sub True Some show ?thesis by auto
    next
      case False
      with 2 Some have "set (removeMatches m cs) \<subseteq> set cs" by blast
      with False Some show ?thesis by auto
    qed
  qed
qed

lemma set_currencyAt: "currencyAt t = Some r \<Longrightarrow> set r \<subseteq> set t"
proof -
  assume "currencyAt t = Some r"
  then have r: "r = dropWhile isWhiteSpace (drop 3 (dropWhile isWhiteSpace t))"
    by (auto simp: currencyAt_def Let_def split: if_splits)
  show "set r \<subseteq> set t"
    unfolding r by (meson in_set_dropD set_dropWhileD subsetI)
qed

lemma set_qtyAt: "qtyAt t = Some r \<Longrightarrow> set r \<subseteq> set t"
proof -
  assume a: "qtyAt t = Some r"
  have d: "set (drop 3 t) \<subseteq> set t" by (meson in_set_dropD subsetI)
  have w: "set (dropWhile isWhiteSpace x) \<subseteq> set x" for x
    by (meson set_dropWhileD subsetI)
  show "set r \<subseteq> set t"
  proof (cases "drop 3 t")
    case Nil
    with a show ?thesis by (auto simp: qtyAt_def split: if_splits)
  next
    case (Cons e x)
    with a have "r = dropWhile isWhiteSpace x \<or> r = dropWhile isWhiteSpace (e # x)"
      by (simp add: qtyAt_def split: if_splits)
    then have "set r \<subseteq> set (e # x)"
      using w [of x] w [of "e # x"] by auto
    with d Cons show ?thesis by auto
  qed
qed

lemma set_cleanPrice: "set (cleanPrice s) \<subseteq> set s"
proof -
  have "set (removeMatches currencyAt x) \<subseteq> set x" for x
    by (rule set_removeMatches) (simp add: set_currencyAt)
  then show ?thesis
    unfolding cleanPrice_def
    using set_trim set_stripSpoilerTags by (meson filter_is_subset subset_trans)
qed

lemma set_cleanQuantity: "set (cleanQuantity s) \<subseteq> set s"
proof -
  have "set (removeMatches qtyAt x) \<subseteq> set x" for x
    by (rule set_removeMatches) (simp add: set_qtyAt)
  then show ?thesis
    unfolding cleanQuantity_def
    using set_trim by (meson filter_is_subset subset_trans)
qed

lemma parsePrice_not_NaN: "parsePrice s \<noteq> NaN"
  by (simp add: parsePrice_def isNaN_def Let_def)

lemma parsePrice_sign:
  assumes "CHR ''-'' \<notin> set s"
  shows "nonNegative (parsePrice s)"
proof -
  have "CHR ''-'' \<notin> set (cleanPrice s)" using assms set_cleanPrice by blast
  from parseFloat_sign [OF this] show ?thesis
    by (auto simp: parsePrice_def isNaN_def Let_def nonNegative_def)
qed

lemma parseQuantity_not_NaN: "parseQuantity s \<noteq> NaN"
  by (simp add: parseQuantity_def isNaN_def Let_def)

lemma parseQuantity_whole: "wholeOrInfinite (parseQuantity s)"
  using parseInt_whole [of "cleanQuantity s"]
  by (auto simp: parseQuantity_def isNaN_def Let_def wholeOrInfinite_def)

lemma parseQuantity_sign:
  assumes "CHR ''-'' \<notin> set s"
  shows "nonNegative (parseQuantity s)"
proof -
  have "CHR ''-'' \<notin> set (cleanQuantity s)" using assms set_cleanQuantity by blast
  from parseInt_sign [OF this] show ?thesis
    by (auto simp: parseQuantity_def isNaN_def Let_def nonNegative_def)
qed

section \<open>Substrings\<close>

lemma isPrefix_iff: "isPrefix p s \<longleftrightarrow> (\<exists>v. s = p @ v)"
  by (induction p s rule: isPrefix.induct) auto

lemma includes_str_iff: "includes_str s p \<longleftrightarrow> (\<exists>u v. s = u @ p @ v)"
proof (induction s)
  case Nil
  then show ?case by auto
next
  case (Cons c cs)
  show ?case
  proof
    assume "includes_str (c # cs) p"
    then consider "isPrefix p (c # cs)" | "includes_str cs p" by auto
    then show "\<exists>u v. c # cs = u @ p @ v"
    proof cases
      case 1
      then obtain v where "c # cs = [] @ p @ v" by (auto simp: isPrefix_iff)
      then show ?thesis by blast
    next
      case 2
      with Cons obtain u v where "cs = u @ p @ v" by auto
      then have "c # cs = (c # u) @ p @ v" by simp
      then show ?thesis by blast
    qed
  next
    assume "\<exists>u v. c # cs = u @ p @ v"
    then obtain u v where e: "c # cs = u @ p @ v" by auto
    show "includes_str (c # cs) p"
    proof (cases u)
      case Nil
      with e have "isPrefix p (c # cs)" by (auto simp: isPrefix_iff)
      then show ?thesis by simp
    next
      case (Cons d u')
      with e have "cs = u' @ p @ v" by simp
      with Cons.IH have "includes_str cs p" by blast
      then show ?thesis by simp
    qed
  qed
qed

section \<open>Evaluation of the prices, of the labels with a zero and of the classifier\<close>

lemma cleanPrice_examples:
  "cleanPrice ''$1,234.56'' = ''1234.56''"
  "cleanPrice ''1234.56 USD'' = ''1234.56''"
  "cleanPrice ''||$12.00||'' = ''12.00''"
  "cleanPrice ''abc'' = ''abc''"
  by (simp_all add: cleanPrice_def stripSpoilerTags_def currencyAt_def str_defs char_defs)

lemma parseFloat_examples:
  "parseFloat ''1234.56'' = Num 1234.56"
  "parseFloat ''12.00'' = Num 12.00"
  "parseFloat ''abc'' = NaN"
  by (simp_all add: num_defs str_defs char_defs)

lemma parseQuantity_abc: "parseInt (cleanQuantity ''abc'') = NaN" "parseQuantity ''abc'' = Num 1"
  by (simp_all add: value_defs)

lemma numbered_price_zero:
  "numberedMatch (trim (toLowerCase ''Price (0)'')) = Some (''price'', ''0'')"
  "isMapped ''price''" "digitsValue ''0'' = 0" "trim ''price'' = ''price''"
  by (simp_all add: field_defs)

lemma textToCheck_examples:
  "textToCheck (Some splitPhrase) [] = ''successful checkout  ''"
  "textToCheck None ''Shop'' = ''   shop''"
  by (simp_all add: textToCheck_def splitPhrase_def orEmpty_def str_defs char_defs)

lemma toLowerCase_examples:
  "toLowerCase ''Successful'' = ''successful''" "toLowerCase ''Checkout'' = ''checkout''"
  by (simp_all add: str_defs char_defs)

section \<open>Rounding to a double\<close>

lemma bitLength_bounds: "0 < n \<Longrightarrow> 2 ^ (bitLength n - 1) \<le> n \<and> n < 2 ^ bitLength n"
proof (induction n rule: bitLength.induct)
  case (1 n)
  show ?case
  proof (cases "n div 2 = 0")
    case True
    with 1 have "n = 1" by presburger
    then show ?thesis by (simp add: bitLength.simps)
  next
    case False
    with 1 have ih: "2 ^ (bitLength (n div 2) - 1) \<le> n div 2" "n div 2 < 2 ^ bitLength (n div 2)"
      by simp_all
    from False have pos: "0 < bitLength (n div 2)"
      by (simp add: bitLength.simps [of "n div 2"])
    have b: "bitLength n = Suc (bitLength (n div 2))"
      using 1 by (simp add: bitLength.simps [of n])
    from pos have "(2::nat) ^ bitLength (n div 2) = 2 * 2 ^ (bitLength (n div 2) - 1)"
      by (cases "bitLength (n div 2)") simp_all
    with ih have "2 ^ bitLength (n div 2) \<le> n" by linarith
    moreover from ih have "n < 2 * 2 ^ bitLength (n div 2)" by linarith
    ultimately show ?thesis by (simp add: b)
  qed
qed

lemma roundToDouble_exact: "n < 2 ^ 53 \<Longrightarrow> roundToDouble n = Num (of_nat n)"
  by (simp add: roundToDouble_def)

lemma rounded_down_large:
  assumes "2 ^ k \<le> n" and "53 \<le> k"
  shows "2 ^ k \<le> (n div 2 ^ (bitLength n - 53)) * 2 ^ (bitLength n - 53)"
proof -
  let ?b = "bitLength n"
  let ?u = "(2::nat) ^ (?b - 53)"
  from assms have pos: "0 < n" by (metis less_le_trans zero_less_numeral zero_less_power)
  from bitLength_bounds [OF pos] have lo: "2 ^ (?b - 1) \<le> n" and hi: "n < 2 ^ ?b"
    by simp_all
  from assms hi have "(2::nat) ^ k < 2 ^ ?b" by linarith
  then have b: "k < ?b" by (simp add: power_strict_increasing_iff)
  with assms have "?b - 1 = 52 + (?b - 53)" by simp
  then have usplit: "(2::nat) ^ (?b - 1) = 2 ^ 52 * ?u"
    by (simp only: power_add)
  have "2 ^ 52 * ?u \<le> n" using lo usplit by simp
  then have "2 ^ 52 \<le> n div ?u"
    by (simp add: less_eq_div_iff_mult_less_eq)
  then have "2 ^ 52 * ?u \<le> (n div ?u) * ?u" by (rule mult_le_mono1)
  moreover have "(2::nat) ^ k \<le> 2 ^ (?b - 1)"
    using b by (simp add: power_increasing_iff)
  ultimately show ?thesis using usplit by linarith
qed

lemma roundToDouble_overflow:
  assumes "2 ^ 1024 \<le> n"
  shows "roundToDouble n = PosInfinity"
proof -
  let ?u = "(2::nat) ^ (bitLength n - 53)"
  have q: "2 ^ 1024 \<le> (n div ?u) * ?u"
    using assms by (rule rounded_down_large) simp
  then have q': "2 ^ 1024 \<le> (n div ?u + 1) * ?u"
    by (metis add_mult_distrib le_add1 le_trans)
  have "(2::nat) ^ 53 \<le> 2 ^ 1024" by (rule power_increasing) simp_all
  with assms have "\<not> n < 2 ^ 53" by linarith
  then show ?thesis
    using q q' by (simp add: roundToDouble_def Let_def)
qed

lemma roundToDouble_example: "roundToDouble 9007199254740993 = Num 9007199254740992"
proof -
  have "bitLength 9007199254740993 = 54"
    by (simp add: bitLength.simps)
  then show ?thesis
    by (simp add: roundToDouble_def Let_def)
qed

section \<open>The merged items: one entry for every index of either source, in ascending order\<close>

lemma mapHas_iff: "mapHas m k \<longleftrightarrow> k \<in> fst ` set m"
  by (simp add: mapHas_def map_of_eq_None_iff)

lemma mapGet_mergeItems_any:
  assumes "mapHas textItems idx \<or> mapHas embedItems idx"
  shows "mapGet (mergeItems textItems embedItems) idx =
           Some (newMap (itemAt textItems idx @ itemAt embedItems idx))"
proof -
  let ?xs = "newSet (map fst embedItems @ map fst textItems)"
  let ?items = "foldl (\<lambda>items idx.
                    mapSet items idx (newMap (itemAt textItems idx @ itemAt embedItems idx)))
                    [] ?xs"
  have "idx \<in> set ?xs"
    using assms by (auto simp: set_newSet mapHas_iff)
  then have g: "mapGet ?items idx = Some (newMap (itemAt textItems idx @ itemAt embedItems idx))"
    by (simp add: mapGet_foldl_mapSet)
  then have "?items \<noteq> []" by (auto simp: mapGet_def)
  with g show ?thesis by (simp add: mergeItems_def Let_def)
qed

lemma distinct_foldl_mapSet:
  "distinct (map fst acc) \<Longrightarrow>
     distinct (map fst (foldl (\<lambda>items idx. mapSet items idx (f idx)) acc xs))"
  by (induction xs arbitrary: acc) (simp_all add: mapSet_def AList.distinct_update)

lemma distinct_mergeItems: "distinct (map fst (mergeItems textItems embedItems))"
proof -
  let ?items = "foldl (\<lambda>items idx.
                    mapSet items idx (newMap (itemAt textItems idx @ itemAt embedItems idx)))
                    [] (newSet (map fst embedItems @ map fst textItems))"
  have "distinct (map fst ?items)"
    by (rule distinct_foldl_mapSet) simp
  then show ?thesis
    by (simp add: mergeItems_def Let_def mapSet_def)
qed

lemma distinct_sort_key: "distinct (map f (sort_key f xs)) \<longleftrightarrow> distinct (map f xs)"
  by (induction xs) (simp_all add: distinct_insort_key)

lemma sorted_entries: "sorted_wrt (<) (map fst (sort_key fst (mergedItems emb rawText)))"
  by (simp add: strict_sorted_iff sorted_sort_key distinct_sort_key mergedItems_def
        distinct_mergeItems)

lemma before_index_zero:
  assumes "sort_key fst (mergedItems emb rawText) = before @ (0, m0) # after"
    and "mapGet (mergedItems emb rawText) (- 1) = Some m"
  shows "(- 1, m) \<in> set before"
proof -
  have "sorted_wrt (<) (map fst before @ 0 # map fst after)"
    using sorted_entries [of emb rawText] assms(1) by simp
  then have later: "\<forall>i \<in> set (map fst after). 0 < i"
    by (simp add: sorted_wrt_append)
  have "(- 1, m) \<in> set (sort_key fst (mergedItems emb rawText))"
    using mapGet_Some_mem [OF assms(2)] by simp
  then have "(- 1, m) \<in> set before \<or> (- 1, m) \<in> set after"
    by (auto simp: assms(1))
  with later show ?thesis by force
qed

section \<open>Evaluation of further examples\<close>

lemma parseFieldName_mode:
  "parseFieldName ''Mode'' = Some (''mode'', 0)"
  "parseFieldName ''Mode: Slow'' = None"
  "parseFieldName ''Product (0): Z'' = None"
  by (simp_all add: field_defs)

lemma extract_buyNowAgainstText:
  "extractFieldsFromEmbed (Some buyNowAgainstText) =
     ([(''site'', ''Shop'')], [(0, [(''product'', ''Shoe'')])])"
  by (simp add: buyNowAgainstText_def embed_defs str_defs char_defs)

lemma colonMatches_modeSlowText: "colonMatches True modeSlowText = [(''Mode'', ''Slow'')]"
  by (simp add: modeSlowText_def colonMatchAt_def colonValue_def char_defs)

lemma extract_modeSlowText: "extractFieldsFromText modeSlowText = ([(''mode'', ''Slow'')], [])"
proof -
  have "textLines modeSlowText = [''Mode: Slow'']"
    by (simp add: modeSlowText_def textLines_def str_defs char_defs)
  then show ?thesis
    by (simp add: extractFieldsFromText_def colonMatches_modeSlowText parseFieldName_mode
          recordColon_def map_defs table_defs str_defs char_defs)
qed

lemma stripSpoilerTags_more:
  "stripSpoilerTags ''Slow'' = ''Slow''" "stripSpoilerTags ''Z'' = ''Z''"
  "stripSpoilerTags ''Y'' = ''Y''"
  by (simp_all add: value_defs)

lemma merged_buyNowAgainstText:
  "mergedShared (Some buyNowAgainstText) modeSlowText = [(''mode'', ''Slow''), (''site'', ''Shop'')]"
  by (simp add: mergedShared_def mergeShared_def extract_buyNowAgainstText extract_modeSlowText
        map_defs)

lemma parse_buyNowAgainstText:
  "parseWebhookMessage (Some buyNowAgainstText) modeSlowText =
     [\<lparr>product = ''Shoe'', price = Num 0, quantity = Num 1, site = ''Shop'', sku = None,
       mode = Some ''Slow'', fulfillment_type = None, profile = None, order_id = None,
       order_email = None, order_link = None, account = None,
       raw_message_text = modeSlowText\<rparr>]"
  by (simp add: build_defs extract_buyNowAgainstText extract_modeSlowText stripSpoilerTags_more)

lemma extract_oneItem:
  "extractFieldsFromEmbed (Some oneItem) =
     ([(''site'', ''Shop'')], [(0, [(''product'', ''Y'')])])"
  by (simp add: oneItem_def embed_defs str_defs char_defs)

lemma colonMatches_zeroLabelText:
  "colonMatches True zeroLabelText = [(''Product (0)'', ''Z'')]"
  by (simp add: zeroLabelText_def colonMatchAt_def colonValue_def char_defs)

lemma extract_zeroLabelText:
  "extractFieldsFromText zeroLabelText = ([], [(- 1, [(''product'', ''Z'')])])"
proof -
  have "textLines zeroLabelText = [''Product (0): Z'']"
    by (simp add: zeroLabelText_def textLines_def str_defs char_defs)
  moreover have "trim ''Product (0)'' = ''Product (0)''" "trim ''Z'' = ''Z''"
    by (simp_all add: str_defs char_defs)
  ultimately show ?thesis
    by (simp add: extractFieldsFromText_def colonMatches_zeroLabelText parseFieldName_labels
          parseFieldName_mode recordColon_def map_defs table_defs)
qed

lemma merged_zeroLabel:
  "mergedShared (Some oneItem) zeroLabelText = [(''site'', ''Shop'')]"
  "mergedItems (Some oneItem) zeroLabelText =
     [(0, [(''product'', ''Y'')]), (- 1, [(''product'', ''Z'')])]"
  "sort_key fst (mergedItems (Some oneItem) zeroLabelText) =
     [(- 1, [(''product'', ''Z'')]), (0, [(''product'', ''Y'')])]"
  by (simp_all add: mergedShared_def mergedItems_def mergeShared_def mergeItems_def
        extract_oneItem extract_zeroLabelText map_defs)

lemma parse_zeroLabel:
  "parseWebhookMessage (Some oneItem) zeroLabelText =
     [\<lparr>product = ''Z'', price = Num 0, quantity = Num 1, site = ''Shop'', sku = None,
       mode = None, fulfillment_type = None, profile = None, order_id = None,
       order_email = None, order_link = None, account = None,
       raw_message_text = zeroLabelText\<rparr>,
      \<lparr>product = ''Y'', price = Num 0, quantity = Num 1, site = ''Shop'', sku = None,
       mode = None, fulfillment_type = None, profile = None, order_id = None,
       order_email = None, order_link = None, account = None,
       raw_message_text = zeroLabelText\<rparr>]"
  by (simp add: parseWebhookMessage_def merged_zeroLabel buildPurchase_def map_defs
        values_examples values_checkout stripSpoilerTags_more)

section \<open>The merge prefers what the embed pass recorded\<close>

text \<open>
  Where the maps of the embed pass hold a value for a key, that value is the one of the
  merged maps and of the records: for a shared key in the merged shared map and in the field
  of every record returned; for a key of an item in the merged map of that item index and in
  the record built from it, whatever the text supplies for the same key.
\<close>

lemma recorded_embed_value_takes_precedence:
  assumes "extractFieldsFromEmbed emb = (embedShared, embedItems)"
  shows
    "(\<forall>key v. mapGet embedShared key = Some v \<longrightarrow>
        mapGet (mergedShared emb rawText) key = Some v) \<and>
     (\<forall>idx m. mapGet embedItems idx = Some m \<longrightarrow>
        (\<exists>m'. mapGet (mergedItems emb rawText) idx = Some m' \<and>
           (\<forall>key v. mapGet m key = Some v \<longrightarrow> mapGet m' key = Some v) \<and>
           (\<forall>p. buildPurchase (mergedShared emb rawText) rawText m' = Some p \<longrightarrow>
              p \<in> set (parseWebhookMessage emb rawText) \<and>
              (\<forall>v. mapGet m ''product'' = Some v \<longrightarrow> product p = stripSpoilerTags v) \<and>
              (\<forall>v. mapGet m ''price'' = Some v \<longrightarrow>
                 price p = parsePrice (if v = [] then ''0'' else v)) \<and>
              (\<forall>v. mapGet m ''quantity'' = Some v \<longrightarrow>
                 quantity p = parseQuantity (if v = [] then ''1'' else v)) \<and>
              (\<forall>v. mapGet m ''sku'' = Some v \<longrightarrow> sku p = orNull (stripSpoilerTags v))))) \<and>
     (\<forall>p \<in> set (parseWebhookMessage emb rawText).
        (\<forall>v. mapGet embedShared ''site'' = Some v \<longrightarrow> site p = stripSpoilerTags v) \<and>
        (\<forall>v. mapGet embedShared ''mode'' = Some v \<longrightarrow> mode p = orNull (stripSpoilerTags v)) \<and>
        (\<forall>v. mapGet embedShared ''fulfillment_type'' = Some v \<longrightarrow>
           fulfillment_type p = orNull (stripSpoilerTags v)) \<and>
        (\<forall>v. mapGet embedShared ''profile'' = Some v \<longrightarrow>
           profile p = orNull (stripSpoilerTags v)) \<and>
        (\<forall>v. mapGet embedShared ''order_id'' = Some v \<longrightarrow>
           order_id p = orNull (stripSpoilerTags v)) \<and>
        (\<forall>v. mapGet embedShared ''order_email'' = Some v \<longrightarrow>
           order_email p = orNull (stripSpoilerTags v)) \<and>
        (\<forall>v. mapGet embedShared ''order_link'' = Some v \<longrightarrow>
           order_link p = orNull (stripSpoilerTags v)) \<and>
        (\<forall>v. mapGet embedShared ''account'' = Some v \<longrightarrow>
           account p = orNull (stripSpoilerTags v)))"
proof -
  let ?sh = "mergedShared emb rawText"
  obtain textShared textItems where t: "extractFieldsFromText rawText = (textShared, textItems)"
    by (cases "extractFieldsFromText rawText")
  have wf: "wellFormed (embedShared, embedItems)"
    using wellFormed_extractFieldsFromEmbed [of emb] assms by simp
  have shared: "mapGet ?sh key = Some v" if "mapGet embedShared key = Some v" for key v
    using wf that
    by (simp add: mergedShared_def mergeShared_def assms t wellFormed_def mapGet_newMap_append)
  have items: "\<exists>m'. mapGet (mergedItems emb rawText) idx = Some m' \<and>
           (\<forall>key v. mapGet m key = Some v \<longrightarrow> mapGet m' key = Some v) \<and>
           (\<forall>p. buildPurchase ?sh rawText m' = Some p \<longrightarrow>
              p \<in> set (parseWebhookMessage emb rawText) \<and>
              (\<forall>v. mapGet m ''product'' = Some v \<longrightarrow> product p = stripSpoilerTags v) \<and>
              (\<forall>v. mapGet m ''price'' = Some v \<longrightarrow>
                 price p = parsePrice (if v = [] then ''0'' else v)) \<and>
              (\<forall>v. mapGet m ''quantity'' = Some v \<longrightarrow>
                 quantity p = parseQuantity (if v = [] then ''1'' else v)) \<and>
              (\<forall>v. mapGet m ''sku'' = Some v \<longrightarrow> sku p = orNull (stripSpoilerTags v)))"
    if m: "mapGet embedItems idx = Some m" for idx m
  proof -
    let ?m' = "newMap (itemAt textItems idx @ m)"
    have g: "mapGet (mergedItems emb rawText) idx = Some ?m'"
      using mapGet_mergeItems [OF m] by (simp add: mergedItems_def assms t)
    have "distinct (map fst m)"
      using wf mapGet_Some_mem [OF m] by (fastforce simp: wellFormed_def)
    then have keep: "mapGet ?m' key = Some v" if "mapGet m key = Some v" for key v
      using that by (rule mapGet_newMap_append)
    have "(idx, ?m') \<in> set (mergedItems emb rawText)"
      using g by (rule mapGet_Some_mem)
    then have mem: "p \<in> set (parseWebhookMessage emb rawText)"
      if "buildPurchase ?sh rawText ?m' = Some p" for p
      using that by (force simp: parse_mem)
    have vals: "(\<forall>v. mapGet m ''product'' = Some v \<longrightarrow> product p = stripSpoilerTags v) \<and>
              (\<forall>v. mapGet m ''price'' = Some v \<longrightarrow>
                 price p = parsePrice (if v = [] then ''0'' else v)) \<and>
              (\<forall>v. mapGet m ''quantity'' = Some v \<longrightarrow>
                 quantity p = parseQuantity (if v = [] then ''1'' else v)) \<and>
              (\<forall>v. mapGet m ''sku'' = Some v \<longrightarrow> sku p = orNull (stripSpoilerTags v))"
      if b: "buildPurchase ?sh rawText ?m' = Some p" for p
      using buildPurchase_item [OF b] keep by (auto simp: getOr_def)
    show ?thesis
      using g keep mem vals by blast
  qed
  have records: "(\<forall>v. mapGet embedShared ''site'' = Some v \<longrightarrow> site p = stripSpoilerTags v) \<and>
        (\<forall>v. mapGet embedShared ''mode'' = Some v \<longrightarrow> mode p = orNull (stripSpoilerTags v)) \<and>
        (\<forall>v. mapGet embedShared ''fulfillment_type'' = Some v \<longrightarrow>
           fulfillment_type p = orNull (stripSpoilerTags v)) \<and>
        (\<forall>v. mapGet embedShared ''profile'' = Some v \<longrightarrow>
           profile p = orNull (stripSpoilerTags v)) \<and>
        (\<forall>v. mapGet embedShared ''order_id'' = Some v \<longrightarrow>
           order_id p = orNull (stripSpoilerTags v)) \<and>
        (\<forall>v. mapGet embedShared ''order_email'' = Some v \<longrightarrow>
           order_email p = orNull (stripSpoilerTags v)) \<and>
        (\<forall>v. mapGet embedShared ''order_link'' = Some v \<longrightarrow>
           order_link p = orNull (stripSpoilerTags v)) \<and>
        (\<forall>v. mapGet embedShared ''account'' = Some v \<longrightarrow>
           account p = orNull (stripSpoilerTags v))"
    if "p \<in> set (parseWebhookMessage emb rawText)" for p
  proof -
    from that obtain m where b: "buildPurchase ?sh rawText m = Some p"
      by (auto simp: parse_mem)
    show ?thesis
      using buildPurchase_shared [OF b] shared by (auto simp: getOr_Some)
  qed
  show ?thesis
    using shared items records by blast
qed

lemma recorded_embed_value_example:
  "mapGet (fst (extractFieldsFromText twoItemsText)) ''site'' = Some ''Web'' \<and>
   mapGet (fst (extractFieldsFromEmbed (Some twoItems))) ''site'' = Some ''Shop'' \<and>
   mapGet (mergedShared (Some twoItems) twoItemsText) ''site'' = Some ''Shop'' \<and>
   map site (parseWebhookMessage (Some twoItems) twoItemsText) = [''Shop'', ''Shop''] \<and>
   mapGet (itemAt (snd (extractFieldsFromText twoItemsText)) 0) ''price'' = Some ''9'' \<and>
   mapGet (itemAt (snd (extractFieldsFromEmbed (Some twoItems))) 0) ''price'' = Some ''$5'' \<and>
   mapGet (itemAt (mergedItems (Some twoItems) twoItemsText) 0) ''price'' = Some ''$5'' \<and>
   map price (parseWebhookMessage (Some twoItems) twoItemsText) = [Num 5, Num 7]"
  using recorded_embed_value_takes_precedence [OF extract_twoItems, of twoItemsText]
  by (simp add: extract_twoItemsText extract_twoItems merged_twoItems parse_twoItems
        mapGet_def itemAt_def)


lemma parse_five_two:
  "parseFloat (cleanPrice ''$5'') = Num 5" "parseInt (cleanQuantity ''2'') = Num 2"
  by (simp_all add: value_defs)

section \<open>The claims\<close>

text \<open>
  C1. All records returned by one call of \<open>parseWebhookMessage\<close> agree on site, mode,
  fulfillment type, profile, order id, order email, order link, account and raw message
  text.
\<close>

theorem shared_fields_identical:
  "\<forall>p \<in> set (parseWebhookMessage emb rawText). \<forall>q \<in> set (parseWebhookMessage emb rawText).
     site p = site q \<and> mode p = mode q \<and> fulfillment_type p = fulfillment_type q \<and>
     profile p = profile q \<and> order_id p = order_id q \<and> order_email p = order_email q \<and>
     order_link p = order_link q \<and> account p = account q \<and>
     raw_message_text p = raw_message_text q"
proof (intro ballI)
  fix p q
  assume "p \<in> set (parseWebhookMessage emb rawText)"
    and "q \<in> set (parseWebhookMessage emb rawText)"
  then obtain m m' where
    p: "buildPurchase (mergedShared emb rawText) rawText m = Some p" and
    q: "buildPurchase (mergedShared emb rawText) rawText m' = Some q"
    by (auto simp: parse_mem)
  show "site p = site q \<and> mode p = mode q \<and> fulfillment_type p = fulfillment_type q \<and>
     profile p = profile q \<and> order_id p = order_id q \<and> order_email p = order_email q \<and>
     order_link p = order_link q \<and> account p = account q \<and>
     raw_message_text p = raw_message_text q"
    by (simp add: buildPurchase_shared [OF p] buildPurchase_shared [OF q])
qed

theorem shared_fields_identical_witness:
  "length (parseWebhookMessage (Some twoItems) twoItemsText) = 2 \<and>
   product (parseWebhookMessage (Some twoItems) twoItemsText ! 0) \<noteq>
     product (parseWebhookMessage (Some twoItems) twoItemsText ! 1) \<and>
   site (parseWebhookMessage (Some twoItems) twoItemsText ! 0) =
     site (parseWebhookMessage (Some twoItems) twoItemsText ! 1) \<and>
   mode (parseWebhookMessage (Some twoItems) twoItemsText ! 0) =
     mode (parseWebhookMessage (Some twoItems) twoItemsText ! 1) \<and>
   raw_message_text (parseWebhookMessage (Some twoItems) twoItemsText ! 0) =
     raw_message_text (parseWebhookMessage (Some twoItems) twoItemsText ! 1)"
  using shared_fields_identical [of "Some twoItems" twoItemsText]
  by (simp add: parse_twoItems)

text \<open>
  C9. For the raw text of the end-to-end example (Site, NikeStore, Product, Air Max, Price,
  $100, Qty, 2, each on a line of its own), \<open>parseWebhookMessage\<close> returns exactly one
  record: product \<open>Air Max\<close>, price 100, quantity 2, site \<open>NikeStore\<close>, no sku, and the
  input text as raw message text. This holds without an embed and with an embed that has
  only the title \<open>Successful Checkout\<close>.
\<close>

theorem end_to_end_checkout:
  "parseWebhookMessage None checkoutText =
     [\<lparr>product = ''Air Max'', price = Num 100, quantity = Num 2,
       site = ''NikeStore'', sku = None, mode = None, fulfillment_type = None,
       profile = None, order_id = None, order_email = None, order_link = None,
       account = None, raw_message_text = checkoutText\<rparr>] \<and>
   parseWebhookMessage (Some titleOnly) checkoutText =
     [\<lparr>product = ''Air Max'', price = Num 100, quantity = Num 2,
       site = ''NikeStore'', sku = None, mode = None, fulfillment_type = None,
       profile = None, order_id = None, order_email = None, order_link = None,
       account = None, raw_message_text = checkoutText\<rparr>]"
  by (simp add: merge_defs extract_checkoutText extractFieldsFromEmbed_def titleOnly_def
        values_checkout)

text \<open>
  C2. Embed field against text for the same canonical key. The merge sets the entries of the
  embed pass last (\<open>recorded_embed_value_takes_precedence\<close>), but the embed pass records
  nothing for a field labelled \<open>Buy Now\<close>, although the label resolves and the table maps
  it to the key \<open>mode\<close>. In the example the embed has the field \<open>Buy Now\<close> with the value
  \<open>Fast\<close> and the text has the line \<open>Mode: Slow\<close>: both supply the key \<open>mode\<close>, and the
  merged map and the record hold the value of the text.
\<close>

theorem embed_buy_now_loses_to_text:
  "embed_fields buyNowAgainstText =
     Some [\<lparr>name = ''Site'', value = ''Shop''\<rparr>, \<lparr>name = ''Product'', value = ''Shoe''\<rparr>,
           \<lparr>name = ''Buy Now'', value = ''Fast''\<rparr>] \<and>
   modeSlowText = ''Mode: Slow'' \<and>
   parseFieldName ''Buy Now'' = Some (''buy now'', 0) \<and>
   map_of FIELD_MAPPINGS ''buy now'' = Some ''mode'' \<and>
   colonMatches True modeSlowText = [(''Mode'', ''Slow'')] \<and>
   parseFieldName ''Mode'' = Some (''mode'', 0) \<and>
   map_of FIELD_MAPPINGS ''mode'' = Some ''mode'' \<and>
   mapGet (fst (extractFieldsFromEmbed (Some buyNowAgainstText))) ''mode'' = None \<and>
   mapGet (fst (extractFieldsFromText modeSlowText)) ''mode'' = Some ''Slow'' \<and>
   mapGet (mergedShared (Some buyNowAgainstText) modeSlowText) ''mode'' = Some ''Slow'' \<and>
   map mode (parseWebhookMessage (Some buyNowAgainstText) modeSlowText) = [Some ''Slow'']"
  by (simp add: parseFieldName_labels parseFieldName_mode colonMatches_modeSlowText
        extract_buyNowAgainstText extract_modeSlowText merged_buyNowAgainstText
        parse_buyNowAgainstText mapGet_def)
     (simp add: table_defs buyNowAgainstText_def withFields_def modeSlowText_def)

text \<open>
  C3. Every record returned has a product and a site that are not empty after the spoiler
  tags are stripped. The loop passes over an item exactly when one of the two is empty, and
  what it returns for the items before and after that item does not depend on it. The
  result is a list in every case; for an input without a field it is the empty list.
\<close>

theorem required_fields_gate:
  "(\<forall>p \<in> set (parseWebhookMessage emb rawText). product p \<noteq> [] \<and> site p \<noteq> []) \<and>
   (\<forall>before entry after.
      sort_key fst (mergedItems emb rawText) = before @ entry # after \<longrightarrow>
      parseWebhookMessage emb rawText =
        buildPurchases (mergedShared emb rawText) rawText before @
        (case buildPurchase (mergedShared emb rawText) rawText (snd entry) of
           None \<Rightarrow> [] | Some p \<Rightarrow> [p]) @
        buildPurchases (mergedShared emb rawText) rawText after) \<and>
   (\<forall>itemFields.
      buildPurchase (mergedShared emb rawText) rawText itemFields = None \<longleftrightarrow>
        stripSpoilerTags (getOr itemFields ''product'' []) = [] \<or>
        stripSpoilerTags (getOr (mergedShared emb rawText) ''site'' []) = []) \<and>
   parseWebhookMessage None [] = []"
proof -
  have a: "\<forall>p \<in> set (parseWebhookMessage emb rawText). product p \<noteq> [] \<and> site p \<noteq> []"
    by (auto simp: parse_mem dest: buildPurchase_required)
  have b: "parseWebhookMessage emb rawText =
        buildPurchases (mergedShared emb rawText) rawText before @
        (case buildPurchase (mergedShared emb rawText) rawText (snd entry) of
           None \<Rightarrow> [] | Some p \<Rightarrow> [p]) @
        buildPurchases (mergedShared emb rawText) rawText after"
    if "sort_key fst (mergedItems emb rawText) = before @ entry # after" for before entry after
    using that
    by (simp add: parseWebhookMessage_def buildPurchases_append split: option.splits)
  have c: "parseWebhookMessage None [] = []"
    by (simp add: build_defs extract_no_embed extract_empty_text)
  show ?thesis
    using a b c by (simp add: buildPurchase_None)
qed

theorem required_fields_gate_witness:
  "sort_key fst (mergedItems (Some gapItems) []) =
     [(- 1, [(''product'', ''Shoe'')])] @ (0, [(''price'', ''$5'')]) #
     [(1, [(''product'', ''||Hat||'')])] \<and>
   buildPurchase (mergedShared (Some gapItems) []) [] [(''price'', ''$5'')] = None \<and>
   map product (parseWebhookMessage (Some gapItems) []) = [''Shoe'', ''Hat''] \<and>
   parseWebhookMessage (Some gapItems) [] =
     buildPurchases (mergedShared (Some gapItems) []) [] [(- 1, [(''product'', ''Shoe'')])] @
     buildPurchases (mergedShared (Some gapItems) []) [] [(1, [(''product'', ''||Hat||'')])]"
  using required_fields_gate [of "Some gapItems" "[]"]
  by (simp add: merged_gapItems parse_gapItems buildPurchase_def map_defs values_examples
        values_checkout)

text \<open>
  C4, as the claim states it: of two embed fields with the same key the earlier one is kept.
  The embed of the example has two \<open>Site\<close> fields and two \<open>Product\<close> fields; after the pass
  the maps hold the values of the later ones.
\<close>

theorem embed_pass_first_write_counterexample:
  "extractFieldsFromEmbed (Some repeatedFields) =
     ([(''site'', ''Second'')], [(0, [(''product'', ''B'')])]) \<and>
   embed_fields repeatedFields =
     Some [\<lparr>name = ''Site'', value = ''First''\<rparr>, \<lparr>name = ''Product'', value = ''A''\<rparr>,
           \<lparr>name = ''Site'', value = ''Second''\<rparr>, \<lparr>name = ''Product'', value = ''B''\<rparr>]"
  by (simp add: extract_repeatedFields) (simp add: repeatedFields_def withFields_def)

text \<open>
  C4, amended. The writes of the embed pass are unconditional, so the last write wins: the
  maps hold for a key (and, for a key of an item, an item index) the trimmed value of the
  last field of the list that resolves to it.
\<close>

theorem embed_pass_last_write_wins:
  assumes "embed_fields e = Some (pre @ f # post)"
    and "embedTarget f = Some t"
    and "\<forall>g \<in> set post. embedTarget g \<noteq> Some t"
  shows "lookupTarget (extractFieldsFromEmbed (Some e)) t = Some (trim (value f))"
  using assms
  by (simp add: extractFieldsFromEmbed_def foldl_recordEmbedField_other recordEmbedField_same)

theorem embed_pass_last_write_wins_witness:
  "embed_fields repeatedFields =
     Some ([\<lparr>name = ''Site'', value = ''First''\<rparr>, \<lparr>name = ''Product'', value = ''A''\<rparr>] @
           \<lparr>name = ''Site'', value = ''Second''\<rparr> # [\<lparr>name = ''Product'', value = ''B''\<rparr>]) \<and>
   embedTarget \<lparr>name = ''Site'', value = ''First''\<rparr> = Some (''site'', None) \<and>
   embedTarget \<lparr>name = ''Site'', value = ''Second''\<rparr> = Some (''site'', None) \<and>
   embedTarget \<lparr>name = ''Product'', value = ''B''\<rparr> = Some (''product'', Some 0) \<and>
   lookupTarget (extractFieldsFromEmbed (Some repeatedFields)) (''site'', None) = Some ''Second''"
proof -
  have f: "embed_fields repeatedFields =
     Some ([\<lparr>name = ''Site'', value = ''First''\<rparr>, \<lparr>name = ''Product'', value = ''A''\<rparr>] @
           \<lparr>name = ''Site'', value = ''Second''\<rparr> # [\<lparr>name = ''Product'', value = ''B''\<rparr>])"
    by (simp add: repeatedFields_def withFields_def)
  have t: "embedTarget \<lparr>name = ''Site'', value = ''Second''\<rparr> = Some (''site'', None)"
    "embedTarget \<lparr>name = ''Site'', value = ''First''\<rparr> = Some (''site'', None)"
    "embedTarget \<lparr>name = ''Product'', value = ''B''\<rparr> = Some (''product'', Some 0)"
    by (simp_all add: embedTarget_def parseFieldName_labels table_defs)
  have o: "\<forall>g \<in> set [\<lparr>name = ''Product'', value = ''B''\<rparr>]. embedTarget g \<noteq> Some (''site'', None)"
    by (simp add: t)
  have "trim ''Second'' = ''Second''"
    by (simp add: str_defs char_defs)
  with embed_pass_last_write_wins [OF f t(1) o] f t show ?thesis by simp
qed

text \<open>
  C5. The labels \<open>buy now\<close> and \<open>buy now atc?\<close> resolve, and the table maps both to the key
  \<open>mode\<close>; but neither is in \<open>SHARED_FIELDS\<close> (nor in \<open>PER_ITEM_FIELDS\<close>), so no pass
  records their values: the records of the examples, one from embed fields and one from
  text lines, have no mode.
\<close>

theorem buy_now_value_dropped:
  "parseFieldName ''Buy Now'' = Some (''buy now'', 0) \<and>
   parseFieldName ''Buy Now ATC?'' = Some (''buy now atc?'', 0) \<and>
   map_of FIELD_MAPPINGS ''buy now'' = Some ''mode'' \<and>
   map_of FIELD_MAPPINGS ''buy now atc?'' = Some ''mode'' \<and>
   ''buy now'' \<notin> set SHARED_FIELDS \<and> ''buy now atc?'' \<notin> set SHARED_FIELDS \<and>
   ''buy now'' \<notin> set PER_ITEM_FIELDS \<and> ''buy now atc?'' \<notin> set PER_ITEM_FIELDS \<and>
   embed_fields buyNowFields =
     Some [\<lparr>name = ''Site'', value = ''Shop''\<rparr>, \<lparr>name = ''Product'', value = ''Shoe''\<rparr>,
           \<lparr>name = ''Buy Now'', value = ''Fast''\<rparr>, \<lparr>name = ''Buy Now ATC?'', value = ''Yes''\<rparr>] \<and>
   map mode (parseWebhookMessage (Some buyNowFields) []) = [None] \<and>
   textLines buyNowText = [''Site'', ''Shop'', ''Product'', ''Shoe'', ''Buy Now'', ''Fast''] \<and>
   map mode (parseWebhookMessage None buyNowText) = [None]"
  by (simp add: parseFieldName_labels parse_buyNowFields parse_buyNowText textLines_buyNowText)
     (simp add: table_defs buyNowFields_def withFields_def)

text \<open>
  C6, as the claim states it: the price is never negative and the quantity is at least 1.
  The embed of the example has the price text \<open>-5\<close> and the quantity text \<open>0\<close>; the record
  returned has the price \<open>-5\<close> and the quantity \<open>0\<close>.
\<close>

theorem price_quantity_range_counterexample:
  "embed_fields negativeFields =
     Some [\<lparr>name = ''Site'', value = ''Shop''\<rparr>, \<lparr>name = ''Product'', value = ''Shoe''\<rparr>,
           \<lparr>name = ''Price'', value = ''-5''\<rparr>, \<lparr>name = ''Qty'', value = ''0''\<rparr>] \<and>
   map price (parseWebhookMessage (Some negativeFields) []) = [Num (- 5)] \<and>
   map quantity (parseWebhookMessage (Some negativeFields) []) = [Num 0] \<and>
   \<not> nonNegative (Num (- 5)) \<and> \<not> (1::rat) \<le> 0"
  by (simp add: parse_negativeFields nonNegative_def) (simp add: negativeFields_def withFields_def)

text \<open>
  C6, amended. Every record is built from an item of the merged items; its price is what
  \<open>parsePrice\<close> gives for the price text of that item (\<open>0\<close> when the item has none) and its
  quantity is what \<open>parseQuantity\<close> gives for the quantity text of that item (\<open>1\<close> when it
  has none). \<open>parsePrice\<close> returns the number \<open>parseFloat\<close> reads from the cleansed text,
  and \<open>0\<close> when that is \<open>NaN\<close>; the result is never \<open>NaN\<close> and is at least zero when the
  text holds no minus sign. \<open>parseQuantity\<close> returns the number \<open>parseInt\<close> reads from the
  cleansed text, and \<open>1\<close> when that is \<open>NaN\<close>; the result is never \<open>NaN\<close>, is a whole
  number or an infinity (\<open>roundToDouble_overflow\<close>: a run of digits from \<open>2 ^ 1024\<close> on),
  and is at least zero when the text holds no minus sign. Neither checks a range: a minus
  sign gives a negative number, and the quantity text \<open>0\<close> gives the quantity \<open>0\<close>.
\<close>

theorem price_quantity_defaults:
  "(\<forall>p \<in> set (parseWebhookMessage emb rawText).
      \<exists>e \<in> set (mergedItems emb rawText).
        buildPurchase (mergedShared emb rawText) rawText (snd e) = Some p \<and>
        price p = parsePrice (getOr (snd e) ''price'' ''0'') \<and>
        quantity p = parseQuantity (getOr (snd e) ''quantity'' ''1'')) \<and>
   parsePrice priceStr \<noteq> NaN \<and>
   (parseFloat (cleanPrice priceStr) = NaN \<longrightarrow> parsePrice priceStr = Num 0) \<and>
   (parseFloat (cleanPrice priceStr) \<noteq> NaN \<longrightarrow>
      parsePrice priceStr = parseFloat (cleanPrice priceStr)) \<and>
   (CHR ''-'' \<notin> set priceStr \<longrightarrow> nonNegative (parsePrice priceStr)) \<and>
   parseQuantity qtyStr \<noteq> NaN \<and>
   wholeOrInfinite (parseQuantity qtyStr) \<and>
   (parseInt (cleanQuantity qtyStr) = NaN \<longrightarrow> parseQuantity qtyStr = Num 1) \<and>
   (parseInt (cleanQuantity qtyStr) \<noteq> NaN \<longrightarrow>
      parseQuantity qtyStr = parseInt (cleanQuantity qtyStr)) \<and>
   (CHR ''-'' \<notin> set qtyStr \<longrightarrow> nonNegative (parseQuantity qtyStr))"
proof -
  have "\<exists>e \<in> set (mergedItems emb rawText).
        buildPurchase (mergedShared emb rawText) rawText (snd e) = Some p \<and>
        price p = parsePrice (getOr (snd e) ''price'' ''0'') \<and>
        quantity p = parseQuantity (getOr (snd e) ''quantity'' ''1'')"
    if "p \<in> set (parseWebhookMessage emb rawText)" for p
  proof -
    from that obtain e where e: "e \<in> set (mergedItems emb rawText)"
      and b: "buildPurchase (mergedShared emb rawText) rawText (snd e) = Some p"
      by (auto simp: parse_mem)
    from e b buildPurchase_item [OF b] show ?thesis by blast
  qed
  moreover have "parseFloat (cleanPrice priceStr) = NaN \<longrightarrow> parsePrice priceStr = Num 0"
    "parseFloat (cleanPrice priceStr) \<noteq> NaN \<longrightarrow>
       parsePrice priceStr = parseFloat (cleanPrice priceStr)"
    by (simp_all add: parsePrice_def isNaN_def)
  moreover have "parseInt (cleanQuantity qtyStr) = NaN \<longrightarrow> parseQuantity qtyStr = Num 1"
    "parseInt (cleanQuantity qtyStr) \<noteq> NaN \<longrightarrow>
       parseQuantity qtyStr = parseInt (cleanQuantity qtyStr)"
    by (simp_all add: parseQuantity_def isNaN_def)
  ultimately show ?thesis
    using parsePrice_not_NaN parsePrice_sign parseQuantity_not_NaN parseQuantity_whole
      parseQuantity_sign
    by blast
qed

theorem price_quantity_defaults_witness:
  "map price (parseWebhookMessage (Some twoItems) twoItemsText) = [Num 5, Num 7] \<and>
   map quantity (parseWebhookMessage (Some twoItems) twoItemsText) = [Num 1, Num 1] \<and>
   parseFloat (cleanPrice ''abc'') = NaN \<and> parsePrice ''abc'' = Num 0 \<and>
   CHR ''-'' \<notin> set ''abc'' \<and> nonNegative (parsePrice ''abc'') \<and>
   parseInt (cleanQuantity ''abc'') = NaN \<and> parseQuantity ''abc'' = Num 1 \<and>
   nonNegative (parseQuantity ''abc'') \<and> wholeOrInfinite (parseQuantity ''abc'') \<and>
   parseFloat (cleanPrice ''$5'') = Num 5 \<and> parsePrice ''$5'' = Num 5 \<and>
   parseInt (cleanQuantity ''2'') = Num 2 \<and> parseQuantity ''2'' = Num 2"
  using price_quantity_defaults [of "Some twoItems" twoItemsText "''abc''" "''abc''"]
    price_quantity_defaults [of "Some twoItems" twoItemsText "''$5''" "''2''"]
  by (simp add: parse_twoItems cleanPrice_examples parseFloat_examples parseQuantity_abc
        values_examples values_checkout parse_five_two nonNegative_def wholeOrInfinite_def)

text \<open>
  C7, as the claim states it: when none of title, description, author name and raw text
  holds a trigger phrase, the result is false. In the example the title is \<open>Successful\<close>
  and the description \<open>Checkout\<close>: no part holds a phrase, the parts joined by spaces do,
  and the result is true.
\<close>

theorem split_phrase_counterexample:
  "title splitPhrase = Some ''Successful'' \<and> description splitPhrase = Some ''Checkout'' \<and>
   author splitPhrase = None \<and>
   \<not> includes_str (toLowerCase ''Successful'') ''successful checkout'' \<and>
   \<not> includes_str (toLowerCase ''Successful'') ''checkout success'' \<and>
   \<not> includes_str (toLowerCase ''Successful'') ''successfully checked out'' \<and>
   \<not> includes_str (toLowerCase ''Checkout'') ''successful checkout'' \<and>
   \<not> includes_str (toLowerCase ''Checkout'') ''checkout success'' \<and>
   \<not> includes_str (toLowerCase ''Checkout'') ''successfully checked out'' \<and>
   \<not> includes_str [] ''successful checkout'' \<and>
   \<not> includes_str [] ''checkout success'' \<and>
   \<not> includes_str [] ''successfully checked out'' \<and>
   isSuccessfulCheckout (Some splitPhrase) []"
  by (simp add: toLowerCase_examples isSuccessfulCheckout_def textToCheck_examples)
     (simp add: splitPhrase_def)

text \<open>
  C7, amended. When the text that is checked (title, description, author name and raw text,
  joined by single spaces and put in lower case) holds none of the three trigger phrases,
  \<open>isSuccessfulCheckout\<close> returns false.
\<close>

theorem no_trigger_phrase_no_checkout:
  assumes "\<not> includes_str (textToCheck emb rawText) ''successful checkout''"
    and "\<not> includes_str (textToCheck emb rawText) ''checkout success''"
    and "\<not> includes_str (textToCheck emb rawText) ''successfully checked out''"
  shows "\<not> isSuccessfulCheckout emb rawText"
  using assms by (simp add: isSuccessfulCheckout_def)

theorem no_trigger_phrase_no_checkout_witness:
  "\<not> includes_str (textToCheck None ''Shop'') ''successful checkout'' \<and>
   \<not> includes_str (textToCheck None ''Shop'') ''checkout success'' \<and>
   \<not> includes_str (textToCheck None ''Shop'') ''successfully checked out'' \<and>
   \<not> isSuccessfulCheckout None ''Shop''"
proof -
  have h: "\<not> includes_str (textToCheck None ''Shop'') ''successful checkout''"
    "\<not> includes_str (textToCheck None ''Shop'') ''checkout success''"
    "\<not> includes_str (textToCheck None ''Shop'') ''successfully checked out''"
    by (simp_all add: textToCheck_examples)
  from no_trigger_phrase_no_checkout [OF h] h show ?thesis by simp
qed

text \<open>
  C8. \<open>parsePrice\<close> maps \<open>$1,234.56\<close> and \<open>1234.56 USD\<close> to 1234.56 and \<open>||$12.00||\<close> to
  12.00, and maps every price text whose cleansed form \<open>parseFloat\<close> does not parse to 0.
\<close>

theorem parsePrice_examples:
  "parsePrice ''$1,234.56'' = Num 1234.56 \<and>
   parsePrice ''1234.56 USD'' = Num 1234.56 \<and>
   parsePrice ''||$12.00||'' = Num 12.00 \<and>
   (parseFloat (cleanPrice priceStr) = NaN \<longrightarrow> parsePrice priceStr = Num 0)"
  by (simp add: parsePrice_def isNaN_def cleanPrice_examples parseFloat_examples)

theorem parsePrice_examples_witness:
  "parseFloat (cleanPrice ''abc'') = NaN \<and> parsePrice ''abc'' = Num 0"
  using parsePrice_examples [of "''abc''"]
  by (simp add: cleanPrice_examples parseFloat_examples)

text \<open>
  C10. The label \<open>product (0)\<close> matches the numbered pattern and resolves to the key
  \<open>product\<close> with the item index \<open>-1\<close>. In general a numbered label whose base name is in
  the table and whose number is zero resolves with the index \<open>-1\<close>. The index takes part
  in the merge like any other: an index that either source holds, \<open>-1\<close> included, has in
  the merged items the fields of the text overlaid by those of the embed. The entries are
  built in strictly ascending order of their index, so the entry of \<open>-1\<close> and its record
  come before the entry of index 0 and its record. In the first example the field
  \<open>Product (0)\<close> comes last in the embed and its record comes first; in the second the
  text supplies \<open>Product (0)\<close>, the embed \<open>Product (1)\<close>, and the record of the text comes
  first.
\<close>

theorem numbered_label_zero:
  "parseFieldName ''product (0)'' = Some (''product'', - 1) \<and>
   (numberedMatch (trim (toLowerCase label)) = Some (g1, g2) \<longrightarrow> isMapped (trim g1) \<longrightarrow>
      digitsValue g2 = 0 \<longrightarrow> parseFieldName label = Some (trim g1, - 1)) \<and>
   (\<forall>idx. mapHas (snd (extractFieldsFromText rawText)) idx \<or>
          mapHas (snd (extractFieldsFromEmbed emb)) idx \<longrightarrow>
      mapGet (mergedItems emb rawText) idx =
        Some (newMap (itemAt (snd (extractFieldsFromText rawText)) idx @
                      itemAt (snd (extractFieldsFromEmbed emb)) idx))) \<and>
   sorted_wrt (<) (map fst (sort_key fst (mergedItems emb rawText))) \<and>
   (\<forall>before m0 after m.
      sort_key fst (mergedItems emb rawText) = before @ (0, m0) # after \<longrightarrow>
      mapGet (mergedItems emb rawText) (- 1) = Some m \<longrightarrow>
        (- 1, m) \<in> set before \<and>
        parseWebhookMessage emb rawText =
          buildPurchases (mergedShared emb rawText) rawText before @
          buildPurchases (mergedShared emb rawText) rawText ((0, m0) # after)) \<and>
   embed_fields gapItems =
     Some [\<lparr>name = ''Site'', value = ''Shop''\<rparr>, \<lparr>name = ''Product (2)'', value = ''||Hat||''\<rparr>,
           \<lparr>name = ''Price (1)'', value = ''$5''\<rparr>, \<lparr>name = ''Product (0)'', value = ''Shoe''\<rparr>] \<and>
   sort_key fst (mergedItems (Some gapItems) []) =
     [(- 1, [(''product'', ''Shoe'')]), (0, [(''price'', ''$5'')]),
      (1, [(''product'', ''||Hat||'')])] \<and>
   map product (parseWebhookMessage (Some gapItems) []) = [''Shoe'', ''Hat''] \<and>
   embed_fields oneItem =
     Some [\<lparr>name = ''Site'', value = ''Shop''\<rparr>, \<lparr>name = ''Product (1)'', value = ''Y''\<rparr>] \<and>
   zeroLabelText = ''Product (0): Z'' \<and>
   extractFieldsFromText zeroLabelText = ([], [(- 1, [(''product'', ''Z'')])]) \<and>
   sort_key fst (mergedItems (Some oneItem) zeroLabelText) =
     [(- 1, [(''product'', ''Z'')]), (0, [(''product'', ''Y'')])] \<and>
   map product (parseWebhookMessage (Some oneItem) zeroLabelText) = [''Z'', ''Y'']"
proof -
  have "parseFieldName ''product (0)'' = Some (''product'', - 1)"
    by (simp add: field_defs)
  moreover have "parseFieldName label = Some (trim g1, - 1)"
    if "numberedMatch (trim (toLowerCase label)) = Some (g1, g2)" and "isMapped (trim g1)"
      and "digitsValue g2 = 0"
    using that by (simp add: parseFieldName_def Let_def)
  moreover have "mapGet (mergedItems emb rawText) idx =
        Some (newMap (itemAt (snd (extractFieldsFromText rawText)) idx @
                      itemAt (snd (extractFieldsFromEmbed emb)) idx))"
    if "mapHas (snd (extractFieldsFromText rawText)) idx \<or>
        mapHas (snd (extractFieldsFromEmbed emb)) idx" for idx
    using that by (simp add: mergedItems_def mapGet_mergeItems_any)
  moreover have "(- 1, m) \<in> set before \<and>
        parseWebhookMessage emb rawText =
          buildPurchases (mergedShared emb rawText) rawText before @
          buildPurchases (mergedShared emb rawText) rawText ((0, m0) # after)"
    if "sort_key fst (mergedItems emb rawText) = before @ (0, m0) # after"
      and "mapGet (mergedItems emb rawText) (- 1) = Some m" for before m0 after m
    using that before_index_zero [OF that]
    by (simp add: parseWebhookMessage_def buildPurchases_append)
  moreover have "embed_fields gapItems =
     Some [\<lparr>name = ''Site'', value = ''Shop''\<rparr>, \<lparr>name = ''Product (2)'', value = ''||Hat||''\<rparr>,
           \<lparr>name = ''Price (1)'', value = ''$5''\<rparr>, \<lparr>name = ''Product (0)'', value = ''Shoe''\<rparr>]"
    "embed_fields oneItem =
     Some [\<lparr>name = ''Site'', value = ''Shop''\<rparr>, \<lparr>name = ''Product (1)'', value = ''Y''\<rparr>]"
    "zeroLabelText = ''Product (0): Z''"
    by (simp_all add: gapItems_def oneItem_def withFields_def zeroLabelText_def)
  moreover have "sort_key fst (mergedItems (Some gapItems) []) =
     [(- 1, [(''product'', ''Shoe'')]), (0, [(''price'', ''$5'')]),
      (1, [(''product'', ''||Hat||'')])]"
    "map product (parseWebhookMessage (Some gapItems) []) = [''Shoe'', ''Hat'']"
    "extractFieldsFromText zeroLabelText = ([], [(- 1, [(''product'', ''Z'')])])"
    "sort_key fst (mergedItems (Some oneItem) zeroLabelText) =
     [(- 1, [(''product'', ''Z'')]), (0, [(''product'', ''Y'')])]"
    "map product (parseWebhookMessage (Some oneItem) zeroLabelText) = [''Z'', ''Y'']"
    by (simp_all add: merged_gapItems parse_gapItems extract_zeroLabelText merged_zeroLabel
          parse_zeroLabel)
  ultimately show ?thesis
    using sorted_entries [of emb rawText] by blast
qed

theorem numbered_label_zero_witness:
  "numberedMatch (trim (toLowerCase ''Price (0)'')) = Some (''price'', ''0'') \<and>
   isMapped (trim ''price'') \<and> digitsValue ''0'' = 0 \<and>
   parseFieldName ''Price (0)'' = Some (''price'', - 1) \<and>
   mapHas (snd (extractFieldsFromText zeroLabelText)) (- 1) \<and>
   \<not> mapHas (snd (extractFieldsFromEmbed (Some oneItem))) (- 1) \<and>
   mapGet (mergedItems (Some oneItem) zeroLabelText) (- 1) = Some [(''product'', ''Z'')] \<and>
   sort_key fst (mergedItems (Some oneItem) zeroLabelText) =
     [(- 1, [(''product'', ''Z'')])] @ (0, [(''product'', ''Y'')]) # [] \<and>
   parseWebhookMessage (Some oneItem) zeroLabelText =
     buildPurchases (mergedShared (Some oneItem) zeroLabelText) zeroLabelText
       [(- 1, [(''product'', ''Z'')])] @
     buildPurchases (mergedShared (Some oneItem) zeroLabelText) zeroLabelText
       [(0, [(''product'', ''Y'')])]"
proof -
  note t = numbered_label_zero [of "''Price (0)''" "''price''" "''0''" zeroLabelText
      "Some oneItem"]
  have label: "numberedMatch (trim (toLowerCase ''Price (0)'')) = Some (''price'', ''0'')"
    "isMapped (trim ''price'')" "digitsValue ''0'' = 0"
    by (simp_all add: numbered_price_zero)
  from t have "numberedMatch (trim (toLowerCase ''Price (0)'')) = Some (''price'', ''0'') \<longrightarrow>
      isMapped (trim ''price'') \<longrightarrow> digitsValue ''0'' = 0 \<longrightarrow>
      parseFieldName ''Price (0)'' = Some (trim ''price'', - 1)"
    by (elim conjE)
  with label have zero: "parseFieldName ''Price (0)'' = Some (''price'', - 1)"
    by (simp add: numbered_price_zero)
  have has: "mapHas (snd (extractFieldsFromText zeroLabelText)) (- 1)"
    "\<not> mapHas (snd (extractFieldsFromEmbed (Some oneItem))) (- 1)"
    by (simp_all add: extract_zeroLabelText extract_oneItem mapHas_def)
  from t have "\<forall>idx. mapHas (snd (extractFieldsFromText zeroLabelText)) idx \<or>
          mapHas (snd (extractFieldsFromEmbed (Some oneItem))) idx \<longrightarrow>
      mapGet (mergedItems (Some oneItem) zeroLabelText) idx =
        Some (newMap (itemAt (snd (extractFieldsFromText zeroLabelText)) idx @
                      itemAt (snd (extractFieldsFromEmbed (Some oneItem))) idx))"
    by (elim conjE)
  with has have "mapGet (mergedItems (Some oneItem) zeroLabelText) (- 1) =
        Some (newMap (itemAt (snd (extractFieldsFromText zeroLabelText)) (- 1) @
                      itemAt (snd (extractFieldsFromEmbed (Some oneItem))) (- 1)))"
    by blast
  then have merged: "mapGet (mergedItems (Some oneItem) zeroLabelText) (- 1) =
      Some [(''product'', ''Z'')]"
    by (simp add: extract_zeroLabelText extract_oneItem map_defs)
  have sorted: "sort_key fst (mergedItems (Some oneItem) zeroLabelText) =
     [(- 1, [(''product'', ''Z'')])] @ (0, [(''product'', ''Y'')]) # []"
    by (simp add: merged_zeroLabel)
  from t have "\<forall>before m0 after m.
      sort_key fst (mergedItems (Some oneItem) zeroLabelText) = before @ (0, m0) # after \<longrightarrow>
      mapGet (mergedItems (Some oneItem) zeroLabelText) (- 1) = Some m \<longrightarrow>
        (- 1, m) \<in> set before \<and>
        parseWebhookMessage (Some oneItem) zeroLabelText =
          buildPurchases (mergedShared (Some oneItem) zeroLabelText) zeroLabelText before @
          buildPurchases (mergedShared (Some oneItem) zeroLabelText) zeroLabelText
            ((0, m0) # after)"
    by (elim conjE)
  with sorted merged have "parseWebhookMessage (Some oneItem) zeroLabelText =
     buildPurchases (mergedShared (Some oneItem) zeroLabelText) zeroLabelText
       [(- 1, [(''product'', ''Z'')])] @
     buildPurchases (mergedShared (Some oneItem) zeroLabelText) zeroLabelText
       [(0, [(''product'', ''Y'')])]"
    by blast
  with label zero has merged sorted show ?thesis by blast
qed

end
